theory Spec2Isabelle
  imports Complex_Main "HOL-Library.Multiset"
begin

section \<open>Numbers, points and matrices\<close>

text \<open>
  A JavaScript number is an IEEE double. The development idealises it as a \<^typ>\<open>real\<close>:
  \<open>+\<close>, \<open>-\<close>, \<open>*\<close>, \<open>/\<close>, \<open>Math.sqrt\<close>, \<open>Math.atan2\<close> and the trigonometric functions
  are the exact ones, there is no rounding, no overflow, no \<open>NaN\<close>, no infinity and no
  negative zero. An equality proved here is the exact law that the floating-point code
  approximates; a counterexample is only given at inputs where every intermediate value
  is an exactly representable double, so that it is a run of the code too.
  A division by zero yields an infinity or \<open>NaN\<close> in JavaScript and \<open>0\<close> in HOL: a theorem
  about the value of a quotient excludes it by a hypothesis.
\<close>

text \<open>
  Modelled from the spec: the class \<open>Point\<close> (\<open>src/Point.ts\<close>) is not among the sources.
  The spec describes it as an \<open>(x, y)\<close> pair that supports arithmetic, rotation,
  midpoint and transform-by-matrix. \<open>eq\<close> compares both coordinates, \<open>min\<close> and \<open>max\<close>
  work coordinate by coordinate, \<open>transform\<close> applies the linear part of the matrix and,
  unless the offset is ignored, adds the translation, \<open>rotate\<close> turns a point about an
  origin by an angle in radians.
\<close>

datatype Point = Point (x_of: real) (y_of: real)

type_synonym TMat2D = "real \<times> real \<times> real \<times> real \<times> real \<times> real"

definition eq :: "Point \<Rightarrow> Point \<Rightarrow> bool" where
  "eq p q = (x_of p = x_of q \<and> y_of p = y_of q)"

definition min_pt :: "Point \<Rightarrow> Point \<Rightarrow> Point" where
  "min_pt p q = Point (min (x_of p) (x_of q)) (min (y_of p) (y_of q))"

definition max_pt :: "Point \<Rightarrow> Point \<Rightarrow> Point" where
  "max_pt p q = Point (max (x_of p) (x_of q)) (max (y_of p) (y_of q))"

definition subtract :: "Point \<Rightarrow> Point \<Rightarrow> Point" where
  "subtract p q = Point (x_of p - x_of q) (y_of p - y_of q)"

definition add_pt :: "Point \<Rightarrow> Point \<Rightarrow> Point" where
  "add_pt p q = Point (x_of p + x_of q) (y_of p + y_of q)"

definition scalarAdd :: "Point \<Rightarrow> real \<Rightarrow> Point" where
  "scalarAdd p s = Point (x_of p + s) (y_of p + s)"

fun transform :: "Point \<Rightarrow> TMat2D \<Rightarrow> bool \<Rightarrow> Point" where
  "transform (Point x y) (t0, t1, t2, t3, t4, t5) ignoreOffset =
     Point (t0 * x + t2 * y + (if ignoreOffset then 0 else t4))
           (t1 * x + t3 * y + (if ignoreOffset then 0 else t5))"

definition rotate :: "Point \<Rightarrow> real \<Rightarrow> Point \<Rightarrow> Point" where
  "rotate p radians origin =
     (let sinus = sin radians; cosinus = cos radians; v = subtract p origin
      in add_pt (Point (x_of v * cosinus - y_of v * sinus)
                       (x_of v * sinus + y_of v * cosinus)) origin)"

text \<open>
  Modelled from the spec: the constant \<open>iMatrix\<close> (\<open>src/constants.ts\<close>) is not among the
  sources. The spec: the identity is the neutral element for composition.
\<close>

definition iMatrix :: TMat2D where
  "iMatrix = (1, 0, 0, 1, 0, 0)"

subsection \<open>Matrix algebra (\<open>util/misc/matrix.ts\<close>)\<close>

definition transformPoint :: "Point \<Rightarrow> TMat2D \<Rightarrow> bool \<Rightarrow> Point" where
  "transformPoint p t ignoreOffset = transform p t ignoreOffset"

text \<open>
  \<open>invertTransform\<close>: \<open>a\<close> is the reciprocal of the determinant, \<open>r\<close> the scaled cofactor
  matrix with a zero translation; the translation of \<open>t\<close> is sent through \<open>r\<close> without the
  offset and negated.
\<close>

fun invertTransform :: "TMat2D \<Rightarrow> TMat2D" where
  "invertTransform (t0, t1, t2, t3, t4, t5) =
     (let a = 1 / (t0 * t3 - t1 * t2);
          r = (a * t3, - a * t1, - a * t2, a * t0, 0, 0);
          p = transform (Point t4 t5) r True
      in (a * t3, - a * t1, - a * t2, a * t0, - x_of p, - y_of p))"

fun multiplyTransformMatrices :: "TMat2D \<Rightarrow> TMat2D \<Rightarrow> bool \<Rightarrow> TMat2D" where
  "multiplyTransformMatrices (a0, a1, a2, a3, a4, a5) (b0, b1, b2, b3, b4, b5) is2x2 =
     (a0 * b0 + a2 * b1,
      a1 * b0 + a3 * b1,
      a0 * b2 + a2 * b3,
      a1 * b2 + a3 * b3,
      (if is2x2 then 0 else a0 * b4 + a2 * b5 + a4),
      (if is2x2 then 0 else a1 * b4 + a3 * b5 + a5))"

text \<open>
  \<open>multiplyTransformMatrixArray\<close>: \<open>reduceRight\<close> from the identity; an entry that is
  \<open>undefined\<close>, \<open>null\<close> or \<open>false\<close> (here \<open>None\<close>) is skipped.
\<close>

definition multiplyTransformMatrixArray :: "TMat2D option list \<Rightarrow> bool \<Rightarrow> TMat2D" where
  "multiplyTransformMatrixArray matrices is2x2 =
     foldr (\<lambda>curr product.
              case curr of Some m \<Rightarrow> multiplyTransformMatrices m product is2x2
                         | None \<Rightarrow> product)
           matrices iMatrix"

text \<open>The determinant \<open>a * d - b * c\<close> of the linear part, in which the claims are stated.\<close>

definition det :: "TMat2D \<Rightarrow> real" where
  "det t = (case t of (t0, t1, t2, t3, t4, t5) \<Rightarrow> t0 * t3 - t1 * t2)"

text \<open>
  Modelled from the spec: \<open>degreesToRadians\<close>, \<open>radiansToDegrees\<close> and the helpers \<open>cos\<close>
  and \<open>sin\<close> (\<open>util/misc/radiansDegreesConversion.ts\<close>, \<open>cos.ts\<close>, \<open>sin.ts\<close>) are not
  among the sources. The spec says that angles are in degrees at the public boundary and
  are converted to radians internally, and that all trigonometry uses the same radian
  convention. The conversions multiply by \<open>\<pi> / 180\<close> and divide by it; the helpers are the
  cosine and the sine, written \<^const>\<open>cos\<close> and \<^const>\<open>sin\<close> below.
\<close>

definition degreesToRadians :: "real \<Rightarrow> real" where
  "degreesToRadians degrees = degrees * (pi / 180)"

definition radiansToDegrees :: "real \<Rightarrow> real" where
  "radiansToDegrees radians = radians / (pi / 180)"

text \<open>
  \<open>Math.atan2(y, x)\<close> on finite numbers, without the sign of a zero: the angle in
  \<open>(-\<pi>, \<pi>]\<close> of the point \<open>(x, y)\<close>, and \<open>0\<close> at the origin.
\<close>

definition atan2 :: "real \<Rightarrow> real \<Rightarrow> real" where
  "atan2 y x =
     (if 0 < x then arctan (y / x)
      else if x < 0 then (if 0 \<le> y then arctan (y / x) + pi else arctan (y / x) - pi)
      else if 0 < y then pi / 2
      else if y < 0 then - (pi / 2)
      else 0)"

text \<open>
  The arguments of \<open>composeMatrix\<close> (\<open>TComposeMatrixArgs\<close>). Every field is optional in the
  source and has a default; a field that the caller omits holds its default here
  (\<open>defaultArgs\<close>). The type \<open>TQrDecomposeOut\<close> of the result of \<open>qrDecompose\<close> is the same
  record without the two flips: a result of \<open>qrDecompose\<close> given to \<open>composeMatrix\<close> omits
  them, so that they are \<open>false\<close>.
\<close>

record TComposeMatrixArgs =
  translateX :: real
  translateY :: real
  angle :: real
  scaleX :: real
  scaleY :: real
  flipX :: bool
  flipY :: bool
  skewX :: real
  skewY :: real

definition defaultArgs :: TComposeMatrixArgs where
  "defaultArgs = \<lparr>translateX = 0, translateY = 0, angle = 0, scaleX = 1, scaleY = 1,
                  flipX = False, flipY = False, skewX = 0, skewY = 0\<rparr>"

text \<open>\<open>a[4] || 0\<close>: a falsy number (zero) is replaced by \<open>0\<close>.\<close>

definition orZero :: "real \<Rightarrow> real" where
  "orZero v = (if v \<noteq> 0 then v else 0)"

fun qrDecompose :: "TMat2D \<Rightarrow> TComposeMatrixArgs" where
  "qrDecompose (a0, a1, a2, a3, a4, a5) =
     (let angle' = atan2 a1 a0;
          denom = a0 ^ 2 + a1 ^ 2;
          scaleX' = sqrt denom;
          scaleY' = (a0 * a3 - a2 * a1) / scaleX';
          skewX' = atan2 (a0 * a2 + a1 * a3) denom
      in \<lparr>translateX = orZero a4, translateY = orZero a5,
          angle = radiansToDegrees angle',
          scaleX = scaleX', scaleY = scaleY',
          flipX = False, flipY = False,
          skewX = radiansToDegrees skewX', skewY = 0\<rparr>)"

definition createTranslateMatrix :: "real \<Rightarrow> real \<Rightarrow> TMat2D" where
  "createTranslateMatrix x y = (1, 0, 0, 1, x, y)"

text \<open>
  \<open>createRotateMatrix({angle}, {x, y})\<close>; an omitted angle or pivot coordinate is \<open>0\<close>.
  The tests \<open>x ? \<dots> : 0\<close> and \<open>y ? \<dots> : 0\<close> are on each pivot coordinate by itself.
\<close>

definition createRotateMatrix :: "real \<Rightarrow> real \<Rightarrow> real \<Rightarrow> TMat2D" where
  "createRotateMatrix angle_deg x y =
     (let angleRadiant = degreesToRadians angle_deg;
          cosValue = cos angleRadiant;
          sinValue = sin angleRadiant
      in (cosValue, sinValue, - sinValue, cosValue,
          (if x \<noteq> 0 then x - (cosValue * x - sinValue * y) else 0),
          (if y \<noteq> 0 then y - (sinValue * x + cosValue * y) else 0)))"

definition createScaleMatrix :: "real \<Rightarrow> real \<Rightarrow> TMat2D" where
  "createScaleMatrix x y = (x, 0, 0, y, 0, 0)"

definition angleToSkew :: "real \<Rightarrow> real" where
  "angleToSkew angle_deg = tan (degreesToRadians angle_deg)"

definition skewToAngle :: "real \<Rightarrow> real" where
  "skewToAngle v = radiansToDegrees (arctan v)"

definition createSkewXMatrix :: "real \<Rightarrow> TMat2D" where
  "createSkewXMatrix skewValue = (1, 0, angleToSkew skewValue, 1, 0, 0)"

definition createSkewYMatrix :: "real \<Rightarrow> TMat2D" where
  "createSkewYMatrix skewValue = (1, angleToSkew skewValue, 0, 1, 0, 0)"

text \<open>
  \<open>skewX && createSkewXMatrix(skewX)\<close>: a zero skew leaves a falsy entry in the array,
  which \<open>multiplyTransformMatrixArray\<close> skips; likewise for \<open>skewY\<close> and for the angle in
  \<open>composeMatrix\<close>.
\<close>

definition calcDimensionsMatrix :: "TComposeMatrixArgs \<Rightarrow> TMat2D" where
  "calcDimensionsMatrix options =
     multiplyTransformMatrixArray
       [Some (createScaleMatrix (if flipX options then - scaleX options else scaleX options)
                                (if flipY options then - scaleY options else scaleY options)),
        (if skewX options \<noteq> 0 then Some (createSkewXMatrix (skewX options)) else None),
        (if skewY options \<noteq> 0 then Some (createSkewYMatrix (skewY options)) else None)]
       True"

definition composeMatrix :: "TComposeMatrixArgs \<Rightarrow> TMat2D" where
  "composeMatrix options =
     multiplyTransformMatrixArray
       [Some (createTranslateMatrix (translateX options) (translateY options)),
        (if angle options \<noteq> 0 then Some (createRotateMatrix (angle options) 0 0) else None),
        Some (calcDimensionsMatrix options)]
       False"

subsection \<open>Bounding box of points (\<open>util/misc/boundingBoxFromPoints.ts\<close>)\<close>

record TBBox =
  left :: real
  top :: real
  width :: real
  height :: real

text \<open>
  \<open>points.reduce\<close> starts from \<open>{min: points[0], max: points[0]}\<close> and visits every point,
  the first one included.
\<close>

definition makeBoundingBoxFromPoints :: "Point list \<Rightarrow> TBBox" where
  "makeBoundingBoxFromPoints points =
     (if length points = 0 then \<lparr>left = 0, top = 0, width = 0, height = 0\<rparr>
      else
        let (mn, mx) = foldl (\<lambda>(mn, mx) curr. (min_pt mn curr, max_pt mx curr))
                             (hd points, hd points) points;
            size = subtract mx mn
        in \<lparr>left = x_of mn, top = y_of mn, width = x_of size, height = y_of size\<rparr>)"

subsection \<open>Stroke capture (\<open>PencilBrush\<close>)\<close>

text \<open>
  The state of a brush that the modelled methods read or write: the captured points
  \<open>_points\<close>, the two straight-line flags, the decimation distance and the brush width.
\<close>

record PencilBrush =
  points :: "Point list"
  drawStraightLine :: bool
  hasStraightLine :: bool
  decimate :: real
  brushWidth :: real

text \<open>
  \<open>_addPoint\<close>: the result is the returned boolean and the brush afterwards. The
  duplicate test is guarded by \<open>this._points.length > 1\<close>.
\<close>

definition addPoint :: "PencilBrush \<Rightarrow> Point \<Rightarrow> bool \<times> PencilBrush" where
  "addPoint this point =
     (if length (points this) > 1 \<and> eq point (points this ! (length (points this) - 1))
      then (False, this)
      else
        let this1 = (if drawStraightLine this \<and> length (points this) > 1
                     then this\<lparr>hasStraightLine := True, points := butlast (points this)\<rparr>
                     else this)
        in (True, this1\<lparr>points := points this1 @ [point]\<rparr>))"

text \<open>
  \<open>decimatePoints\<close>. The comparison \<open>cDistance >= adjustedDistance\<close> with
  \<open>adjustedDistance = Math.pow(distance / zoom, 2)\<close>: at zoom \<open>0\<close> the quotient is an
  infinity or \<open>NaN\<close> in JavaScript and the comparison is false.
\<close>

definition reachesDistance :: "real \<Rightarrow> real \<Rightarrow> real \<Rightarrow> bool" where
  "reachesDistance cDistance distance zoom =
     (zoom \<noteq> 0 \<and> cDistance \<ge> (distance / zoom) ^ 2)"

text \<open>The loop \<open>for (let i = 1; i < l - 1; i++)\<close>, from index \<open>i\<close> on.\<close>

function decimateLoop ::
  "Point list \<Rightarrow> real \<Rightarrow> real \<Rightarrow> nat \<Rightarrow> nat \<Rightarrow> Point \<Rightarrow> Point list \<Rightarrow> Point list" where
  "decimateLoop pts distance zoom l i lastPoint newPoints =
     (if i < l - 1 then
        let cDistance = (x_of lastPoint - x_of (pts ! i)) ^ 2
                        + (y_of lastPoint - y_of (pts ! i)) ^ 2
        in if reachesDistance cDistance distance zoom
           then decimateLoop pts distance zoom l (i + 1) (pts ! i) (newPoints @ [pts ! i])
           else decimateLoop pts distance zoom l (i + 1) lastPoint newPoints
      else newPoints)"
  by pat_completeness auto
termination
  by (relation "measure (\<lambda>(pts, distance, zoom, l, i, lastPoint, newPoints). l - 1 - i)") auto

definition decimatePoints :: "Point list \<Rightarrow> real \<Rightarrow> real \<Rightarrow> Point list" where
  "decimatePoints pts distance zoom =
     (if length pts \<le> 2 then pts
      else
        let lastPoint = pts ! 0;
            l = length pts - 1;
            newPoints = decimateLoop pts distance zoom l 1 lastPoint [lastPoint]
        in newPoints @ [pts ! l])"

subsection \<open>Object origin and geometry (\<open>ObjectOrigin\<close>, \<open>ObjectGeometry\<close>)\<close>

text \<open>
  Modelled from the spec: \<open>resolveOrigin\<close> (\<open>util/misc/resolveOrigin.ts\<close>) is not among the
  sources. The spec: \<open>resolve\<close> maps left/top to \<open>0\<close>, center to \<open>0.5\<close>, right/bottom to \<open>1\<close>.
\<close>

datatype TOrigin = LEFT | TOP | CENTER | BOTTOM | RIGHT

fun resolveOrigin :: "TOrigin \<Rightarrow> real" where
  "resolveOrigin LEFT = 0"
| "resolveOrigin TOP = 0"
| "resolveOrigin CENTER = 1 / 2"
| "resolveOrigin BOTTOM = 1"
| "resolveOrigin RIGHT = 1"

text \<open>The geometric properties of an object: the fields that \<open>ObjectOrigin\<close> declares.\<close>

record ObjectOrigin =
  this_top :: real
  this_left :: real
  this_width :: real
  this_height :: real
  this_flipX :: bool
  this_flipY :: bool
  this_scaleX :: real
  this_scaleY :: real
  this_skewX :: real
  this_skewY :: real
  this_originX :: TOrigin
  this_originY :: TOrigin
  this_angle :: real
  this_strokeWidth :: real
  this_strokeUniform :: bool

text \<open>
  \<open>_getTransformedDimensions()\<close>, called without overriding options. The helper
  \<open>sizeAfterTransform\<close> (\<open>util/misc/objectTransforms.ts\<close>) of the skewed branch is not among
  the sources: it is the parameter \<open>sizeAfterTransform\<close>, which receives the two dimensions
  and the scale and skew options.
\<close>

definition getTransformedDimensions ::
  "(real \<Rightarrow> real \<Rightarrow> TComposeMatrixArgs \<Rightarrow> Point) \<Rightarrow> ObjectOrigin \<Rightarrow> Point" where
  "getTransformedDimensions sizeAfterTransform this =
     (let strokeWidth = this_strokeWidth this;
          preScalingStrokeValue = (if this_strokeUniform this then 0 else strokeWidth);
          postScalingStrokeValue = (if this_strokeUniform this then strokeWidth else 0);
          dimX = this_width this + preScalingStrokeValue;
          dimY = this_height this + preScalingStrokeValue;
          noSkew = (this_skewX this = 0 \<and> this_skewY this = 0);
          finalDimensions =
            (if noSkew then Point (dimX * this_scaleX this) (dimY * this_scaleY this)
             else sizeAfterTransform dimX dimY
                    (defaultArgs\<lparr>scaleX := this_scaleX this, scaleY := this_scaleY this,
                                 skewX := this_skewX this, skewY := this_skewY this\<rparr>))
      in scalarAdd finalDimensions postScalingStrokeValue)"

definition translateToGivenOrigin ::
  "(real \<Rightarrow> real \<Rightarrow> TComposeMatrixArgs \<Rightarrow> Point) \<Rightarrow> ObjectOrigin \<Rightarrow> Point
     \<Rightarrow> TOrigin \<Rightarrow> TOrigin \<Rightarrow> TOrigin \<Rightarrow> TOrigin \<Rightarrow> Point" where
  "translateToGivenOrigin sizeAfterTransform this point fromOriginX fromOriginY toOriginX toOriginY =
     (let offsetX = resolveOrigin toOriginX - resolveOrigin fromOriginX;
          offsetY = resolveOrigin toOriginY - resolveOrigin fromOriginY
      in if offsetX \<noteq> 0 \<or> offsetY \<noteq> 0 then
           let dim = getTransformedDimensions sizeAfterTransform this
           in Point (x_of point + offsetX * x_of dim) (y_of point + offsetY * y_of dim)
         else Point (x_of point) (y_of point))"

definition translateToCenterPoint ::
  "(real \<Rightarrow> real \<Rightarrow> TComposeMatrixArgs \<Rightarrow> Point) \<Rightarrow> ObjectOrigin \<Rightarrow> Point
     \<Rightarrow> TOrigin \<Rightarrow> TOrigin \<Rightarrow> Point" where
  "translateToCenterPoint sizeAfterTransform this point originX originY =
     (let p = translateToGivenOrigin sizeAfterTransform this point originX originY CENTER CENTER
      in if this_angle this \<noteq> 0 then rotate p (degreesToRadians (this_angle this)) point
         else p)"

definition getRelativeCenterPoint ::
  "(real \<Rightarrow> real \<Rightarrow> TComposeMatrixArgs \<Rightarrow> Point) \<Rightarrow> ObjectOrigin \<Rightarrow> Point" where
  "getRelativeCenterPoint sizeAfterTransform this =
     translateToCenterPoint sizeAfterTransform this
       (Point (this_left this) (this_top this)) (this_originX this) (this_originY this)"

record TCornerPoint =
  tl :: Point
  tr :: Point
  bl :: Point
  br :: Point

definition calcACoords ::
  "(real \<Rightarrow> real \<Rightarrow> TComposeMatrixArgs \<Rightarrow> Point) \<Rightarrow> ObjectOrigin \<Rightarrow> TCornerPoint" where
  "calcACoords sizeAfterTransform this =
     (let rotateMatrix = createRotateMatrix (this_angle this) 0 0;
          c = getRelativeCenterPoint sizeAfterTransform this;
          tMatrix = createTranslateMatrix (x_of c) (y_of c);
          finalMatrix = multiplyTransformMatrices tMatrix rotateMatrix False;
          dim = getTransformedDimensions sizeAfterTransform this;
          w = x_of dim / 2;
          h = y_of dim / 2
      in \<lparr>tl = transformPoint (Point (- w) (- h)) finalMatrix False,
          tr = transformPoint (Point w (- h)) finalMatrix False,
          bl = transformPoint (Point (- w) h) finalMatrix False,
          br = transformPoint (Point w h) finalMatrix False\<rparr>)"

subsection \<open>Eraser (\<open>mixins/eraser_brush.mixin.ts\<close>)\<close>

text \<open>
  The scene. An object is a node of a tree: its identity \<open>oid\<close>, the property \<open>erasable\<close>
  (\<open>false\<close>, \<open>true\<close> or \<open>'deep'\<close>), whether it has a method \<open>forEachObject\<close> (it is a
  collection), its children \<open>_objects\<close>, its clip path, whether it has a \<open>group\<close>, and the
  matrix that \<open>calcTransformMatrix()\<close> returns. The methods modelled here do not change
  these. The fields that they assign, \<open>visible\<close>, \<open>eraser\<close> and \<open>dirty\<close>, are kept in a store
  indexed by the identity, so that an assignment through one reference is seen through
  every other reference to the same object.
\<close>

datatype TErasable = ErasableFalse | ErasableTrue | ErasableDeep

record ClipPath =
  clipMatrix :: TMat2D
  absolutePositioned :: bool

type_synonym TSimplePathData = "(string \<times> real list) list"

text \<open>
  A path object: its path data, the matrix that \<open>calcTransformMatrix()\<close> returns (which
  \<open>applyTransformToObject\<close> sets), its clip path and the two properties that the eraser's
  \<open>createPath\<close> assigns. An eraser (\<open>fabric.Eraser\<close>, a group) is the list of its paths.
\<close>

record Path =
  pathData :: TSimplePathData
  pathMatrix :: TMat2D
  pathClipPath :: "ClipPath option"
  globalCompositeOperation :: string
  stroke :: string

datatype SceneObject =
  SceneObject (oid: nat) (erasable: TErasable) (forEachObject: bool)
    (objects: "SceneObject list") (clipPath: "ClipPath option") (group: bool) (matrix: TMat2D)

record ObjectState =
  visible :: bool
  eraser :: "Path list option"
  dirty :: bool

type_synonym Store = "nat \<Rightarrow> ObjectState"

record EraseContext =
  targets :: "nat list"
  subTargets :: "nat list"
  drawables :: "(string \<times> nat) list"

datatype Event =
    ErasingStart
  | ErasingEnd "(EraseContext \<times> Path) option"
  | ObjectErasingEnd nat Path
  | BeforePathCreated Path
  | PathCreated Path

text \<open>
  The render calls (\<open>_renderBackground\<close>, \<open>_renderObjects\<close>, \<open>_renderOverlay\<close>) belong to the
  canvas, which is not among the sources: they only draw. What a call draws is recorded
  as the objects it is given, each with the \<open>visible\<close> and \<open>eraser\<close> it has at that moment.
\<close>

type_synonym Drawn = "nat \<times> bool \<times> Path list option"

datatype DrawOp =
    RenderBackground "Drawn option" bool
  | RenderObjects "Drawn list"
  | RenderOverlay "Drawn option" bool

record Canvas =
  canvasObjects :: "SceneObject list"
  objectsToRender :: "SceneObject list option"
  backgroundImage :: "SceneObject option"
  overlayImage :: "SceneObject option"
  backgroundColor :: bool
  overlayColor :: bool
  getZoom :: real
  store :: Store
  fired :: "Event list"
  renderRequests :: nat
  topContextClears :: nat

record EraserBrush = PencilBrush +
  inverted :: bool
  isErasing :: bool
  patternCanvas :: "DrawOp list"

text \<open>
  The collaborators that are not among the sources, taken as parameters:
  \<open>getSmoothPathFromPoints\<close> and \<open>joinPath\<close> (\<open>util/path\<close>), the matrix of a path built by
  \<open>new Path(pathData, \<dots>)\<close>, \<open>obj.intersectsWithObject(path, true, true)\<close> and
  \<open>fabric.util.mergeClipPaths\<close>.
\<close>

record Collaborators =
  getSmoothPathFromPoints :: "Point list \<Rightarrow> real \<Rightarrow> TSimplePathData"
  joinPath :: "TSimplePathData \<Rightarrow> string"
  newPathMatrix :: "TSimplePathData \<Rightarrow> TMat2D"
  intersectsWithObject :: "SceneObject \<Rightarrow> Path \<Rightarrow> bool"
  mergeClipPaths :: "ClipPath \<Rightarrow> ClipPath \<Rightarrow> ClipPath"

definition isErasable :: "SceneObject \<Rightarrow> bool" where
  "isErasable object = (erasable object \<noteq> ErasableFalse)"

definition seen :: "Store \<Rightarrow> SceneObject \<Rightarrow> Drawn" where
  "seen s obj = (oid obj, visible (s (oid obj)), eraser (s (oid obj)))"

record RestorationContext =
  rcVisibility :: "nat list"
  rcEraser :: "(nat \<times> Path list) list"
  rcCollection :: "nat list"

text \<open>
  The body of the \<open>forEach\<close> of \<open>_prepareCollectionTraversal\<close> for one object. The
  collection is \<open>Some\<close> identity when it is an object (\<open>collection instanceof fabric.Object\<close>)
  and \<open>None\<close> when it is the canvas.
\<close>

fun prepareObject ::
  "bool \<Rightarrow> nat option \<Rightarrow> SceneObject \<Rightarrow> Store \<times> RestorationContext
     \<Rightarrow> Store \<times> RestorationContext" where
  "prepareObject invertedMode collection (SceneObject i e fe objs cp g m) (s, rc) =
     (if fe \<and> e = ErasableDeep then
        fold (prepareObject invertedMode (Some i)) objs (s, rc)
      else
        let (s1, rc1, dirty') =
              (if \<not> invertedMode \<and> e \<noteq> ErasableFalse \<and> visible (s i) then
                 (s(i := (s i)\<lparr>visible := False\<rparr>),
                  rc\<lparr>rcVisibility := rcVisibility rc @ [i]\<rparr>, True)
               else
                 (case eraser (s i) of
                    Some er \<Rightarrow>
                      if invertedMode \<and> e \<noteq> ErasableFalse \<and> visible (s i) then
                        (s(i := (s i)\<lparr>eraser := None, dirty := True\<rparr>),
                         rc\<lparr>rcEraser := rcEraser rc @ [(i, er)]\<rparr>, True)
                      else (s, rc, False)
                  | None \<Rightarrow> (s, rc, False)))
        in (case collection of
              Some c \<Rightarrow>
                if dirty' then (s1(c := (s1 c)\<lparr>dirty := True\<rparr>),
                                rc1\<lparr>rcCollection := rcCollection rc1 @ [c]\<rparr>)
                else (s1, rc1)
            | None \<Rightarrow> (s1, rc1)))"

definition prepareCollectionTraversal ::
  "bool \<Rightarrow> nat option \<Rightarrow> SceneObject list \<Rightarrow> Store \<times> RestorationContext
     \<Rightarrow> Store \<times> RestorationContext" where
  "prepareCollectionTraversal invertedMode collection objs st = fold (prepareObject invertedMode collection) objs st"

definition renderBackground :: "Canvas \<Rightarrow> DrawOp" where
  "renderBackground canvas =
     RenderBackground (map_option (seen (store canvas)) (backgroundImage canvas))
                      (backgroundColor canvas)"

definition renderOverlay :: "Canvas \<Rightarrow> DrawOp" where
  "renderOverlay canvas =
     RenderOverlay (map_option (seen (store canvas)) (overlayImage canvas))
                   (overlayColor canvas)"

definition renderObjects :: "Canvas \<Rightarrow> SceneObject list \<Rightarrow> DrawOp" where
  "renderObjects canvas objs = RenderObjects (map (seen (store canvas)) objs)"

text \<open>
  The two symmetric blocks of \<open>preparePattern\<close> for the background and for the overlay:
  each returns the canvas afterwards and what it has drawn.
\<close>

definition patternBackground :: "bool \<Rightarrow> Canvas \<Rightarrow> Canvas \<times> DrawOp list" where
  "patternBackground invertedMode canvas =
     (let backgroundImage' = backgroundImage canvas;
          bgErasable = (case backgroundImage' of Some b \<Rightarrow> isErasable b | None \<Rightarrow> False)
      in if \<not> invertedMode \<and> ((backgroundImage' \<noteq> None \<and> \<not> bgErasable) \<or> backgroundColor canvas) then
           let c1 = (if bgErasable then canvas\<lparr>backgroundImage := None\<rparr> else canvas);
               drawn = [renderBackground c1];
               c2 = (if bgErasable then c1\<lparr>backgroundImage := backgroundImage'\<rparr> else c1)
           in (c2, drawn)
         else if invertedMode then
           (case backgroundImage' of
              Some b \<Rightarrow>
                (case eraser (store canvas (oid b)) of
                   Some er \<Rightarrow>
                     let c1 = canvas\<lparr>store := (store canvas)
                                (oid b := (store canvas (oid b))\<lparr>eraser := None, dirty := True\<rparr>)\<rparr>;
                         drawn = [renderBackground c1];
                         c2 = c1\<lparr>store := (store c1)
                                (oid b := (store c1 (oid b))\<lparr>eraser := Some er, dirty := True\<rparr>)\<rparr>
                     in (c2, drawn)
                 | None \<Rightarrow> (canvas, [renderBackground canvas]))
            | None \<Rightarrow> (canvas, [renderBackground canvas]))
         else (canvas, []))"

definition patternOverlay :: "bool \<Rightarrow> Canvas \<Rightarrow> Canvas \<times> DrawOp list" where
  "patternOverlay invertedMode canvas =
     (let overlayImage' = overlayImage canvas;
          overlayErasable = (case overlayImage' of Some b \<Rightarrow> isErasable b | None \<Rightarrow> False)
      in if \<not> invertedMode \<and> ((overlayImage' \<noteq> None \<and> \<not> overlayErasable) \<or> overlayColor canvas) then
           let c1 = (if overlayErasable then canvas\<lparr>overlayImage := None\<rparr> else canvas);
               drawn = [renderOverlay c1];
               c2 = (if overlayErasable then c1\<lparr>overlayImage := overlayImage'\<rparr> else c1)
           in (c2, drawn)
         else if invertedMode then
           (case overlayImage' of
              Some b \<Rightarrow>
                (case eraser (store canvas (oid b)) of
                   Some er \<Rightarrow>
                     let c1 = canvas\<lparr>store := (store canvas)
                                (oid b := (store canvas (oid b))\<lparr>eraser := None, dirty := True\<rparr>)\<rparr>;
                         drawn = [renderOverlay c1];
                         c2 = c1\<lparr>store := (store c1)
                                (oid b := (store c1 (oid b))\<lparr>eraser := Some er, dirty := True\<rparr>)\<rparr>
                     in (c2, drawn)
                 | None \<Rightarrow> (canvas, [renderOverlay canvas]))
            | None \<Rightarrow> (canvas, [renderOverlay canvas]))
         else (canvas, []))"

text \<open>The three \<open>forEach\<close> loops that replay the restoration context.\<close>

definition restore :: "RestorationContext \<Rightarrow> Store \<Rightarrow> Store" where
  "restore rc s =
     (let s1 = fold (\<lambda>i s. s(i := (s i)\<lparr>visible := True\<rparr>)) (rcVisibility rc) s;
          s2 = fold (\<lambda>(i, er) s. s(i := (s i)\<lparr>eraser := Some er, dirty := True\<rparr>)) (rcEraser rc) s1
      in fold (\<lambda>i s. s(i := (s i)\<lparr>dirty := True\<rparr>)) (rcCollection rc) s2)"

text \<open>
  \<open>preparePattern(objects)\<close>: the pattern canvas is sized anew, which clears it; the
  objects are \<open>objects || this.canvas._objectsToRender || this.canvas._objects\<close> (an array
  is truthy, also when empty).
\<close>

definition preparePattern ::
  "EraserBrush \<Rightarrow> SceneObject list option \<Rightarrow> Canvas \<Rightarrow> EraserBrush \<times> Canvas" where
  "preparePattern this objectsArg canvas =
     (let objs = (case objectsArg of
                    Some os \<Rightarrow> os
                  | None \<Rightarrow> (case objectsToRender canvas of
                               Some os \<Rightarrow> os
                             | None \<Rightarrow> canvasObjects canvas));
          (c1, drawnBackground) = patternBackground (inverted this) canvas;
          restorationContext = \<lparr>rcVisibility = [], rcEraser = [], rcCollection = []\<rparr>;
          (s2, rc) = prepareCollectionTraversal (inverted this) None objs
                       (store c1, restorationContext);
          c2 = c1\<lparr>store := s2\<rparr>;
          drawnObjects = [renderObjects c2 objs];
          c3 = c2\<lparr>store := restore rc s2\<rparr>;
          (c4, drawnOverlay) = patternOverlay (inverted this) c3
      in (this\<lparr>patternCanvas := drawnBackground @ drawnObjects @ drawnOverlay\<rparr>, c4))"

text \<open>
  The invariant of the traversal, relative to the store \<open>s0\<close> at its start: an object is
  visible now exactly when it was visible and is not on the visibility list, every object
  on that list was visible, an object on the eraser list has no eraser now and every
  other object has the eraser it had, and every entry of the eraser list holds the
  eraser that its object had.
\<close>

definition restorable :: "Store \<Rightarrow> Store \<times> RestorationContext \<Rightarrow> bool" where
  "restorable s0 st =
     (case st of (s, rc) \<Rightarrow>
        (\<forall>i. visible (s i) = (visible (s0 i) \<and> i \<notin> set (rcVisibility rc)))
        \<and> (\<forall>i \<in> set (rcVisibility rc). visible (s0 i))
        \<and> (\<forall>i. eraser (s i) = (if i \<in> fst ` set (rcEraser rc) then None else eraser (s0 i)))
        \<and> (\<forall>(i, er) \<in> set (rcEraser rc). eraser (s0 i) = Some er))"

text \<open>
  Modelled from the spec: \<open>fabric.util.applyTransformToObject\<close>, \<open>clone\<close> and the class
  \<open>fabric.Eraser\<close> with its \<open>add\<close> are not among the sources. The spec: the clone is
  transformed into the local coordinate space of the target by applying the matrix, and
  is added to the mask. An object to which a matrix is applied has that matrix as its
  transform matrix, a clone is equal to its original, a new eraser has no path and \<open>add\<close>
  appends.
\<close>

text \<open>
  \<open>applyClipPathToPath\<close>: the clip path gets the matrix that is applied to it;
  \<open>path.clipPath\<close> becomes the clip path, merged with the one the path has.
\<close>

definition applyClipPathToPath :: "Collaborators \<Rightarrow> Path \<Rightarrow> ClipPath \<Rightarrow> TMat2D \<Rightarrow> Path" where
  "applyClipPathToPath ext path clipPath' clipPathContainerTransformMatrix =
     (let pathInvTransform = invertTransform (pathMatrix path);
          clipPathTransform = clipMatrix clipPath';
          transform' = (if absolutePositioned clipPath' then pathInvTransform
                        else multiplyTransformMatrices pathInvTransform
                               clipPathContainerTransformMatrix False);
          clipPath1 = clipPath'\<lparr>absolutePositioned := False,
                                clipMatrix := multiplyTransformMatrices transform'
                                                clipPathTransform False\<rparr>
      in path\<lparr>pathClipPath :=
                 (case pathClipPath path of
                    Some own \<Rightarrow> Some (mergeClipPaths ext clipPath1 own)
                  | None \<Rightarrow> Some clipPath1)\<rparr>)"

record EraseState =
  esStore :: Store
  esFired :: "Event list"
  esContext :: EraseContext

text \<open>
  \<open>_addPathToObjectEraser(obj, path, context)\<close>, as the state when the promise it returns
  has resolved; the sibling tasks of a \<open>Promise.all\<close> are run in the order of the array
  (each task assigns to its own object only). \<open>withContext\<close> says whether a context was
  passed. \<open>clonePathWithClipPath\<close> is \<open>applyClipPathToPath\<close> on the clones, with the
  matrix of the object.
\<close>

fun addPathToObjectEraser ::
  "Collaborators \<Rightarrow> bool \<Rightarrow> SceneObject \<Rightarrow> Path \<Rightarrow> EraseState \<Rightarrow> EraseState" where
  "addPathToObjectEraser ext withContext (SceneObject i e fe objs cp g m) path st =
     (if fe \<and> e = ErasableDeep then
        let targets' = filter (\<lambda>obj'. erasable obj' \<noteq> ErasableFalse) objs
        in if length targets' > 0 then
             (case cp of
                Some clip \<Rightarrow>
                  let path' = applyClipPathToPath ext path clip m
                  in fold (\<lambda>obj'. addPathToObjectEraser ext withContext obj' path') targets' st
              | None \<Rightarrow>
                  fold (\<lambda>obj'. addPathToObjectEraser ext withContext obj' path) targets' st)
           else st
      else
        let s = esStore st;
            eraser' = (case eraser (s i) of Some er \<Rightarrow> er | None \<Rightarrow> []);
            desiredTransform = multiplyTransformMatrices (invertTransform m) (pathMatrix path) False;
            clone = path\<lparr>pathMatrix := desiredTransform\<rparr>;
            s1 = s(i := (s i)\<lparr>eraser := Some (eraser' @ [clone]), dirty := True\<rparr>);
            context = esContext st;
            context1 = (if withContext then
                          (if g then context\<lparr>subTargets := subTargets context @ [i]\<rparr>
                           else context\<lparr>targets := targets context @ [i]\<rparr>)
                        else context)
        in st\<lparr>esStore := s1, esFired := esFired st @ [ObjectErasingEnd i clone],
              esContext := context1\<rparr>)"

datatype JsError = TypeError

text \<open>
  The function \<open>isEmptySVGPath\<close> of the module of the pencil brush: the joined path data
  is the string \<open>M 0 0 Q 0 0 0 0 L 0 0\<close>. It is a function of that module, not a method
  of the class, and the module does not export it.
\<close>

definition isEmptySVGPath :: "Collaborators \<Rightarrow> TSimplePathData \<Rightarrow> bool" where
  "isEmptySVGPath ext pathData' = (joinPath ext pathData' = ''M 0 0 Q 0 0 0 0 L 0 0'')"

definition convertPointsToSVGPath ::
  "Collaborators \<Rightarrow> real \<Rightarrow> Point list \<Rightarrow> TSimplePathData" where
  "convertPointsToSVGPath ext brushWidth' pts =
     (let correction = brushWidth' / 1000 in getSmoothPathFromPoints ext pts correction)"

text \<open>
  The eraser's \<open>_finalizeAndAddPath\<close>: the error it throws, if any, with the brush and the
  canvas at that moment or at its return. The path data is \<open>null\<close> for fewer than two
  points; then \<open>!pathData\<close> holds, \<open>erasing:end\<close> is fired without a payload and a rendering
  is requested. With two points or more the path data is an array, which is truthy, and
  the condition goes on to call \<open>this._isEmptySVGPath(pathData)\<close>. Neither the mixin nor
  the class \<open>PencilBrush\<close> defines a method of that name (\<open>isEmptySVGPath\<close> above is out of
  the reach of \<open>this\<close>), so that the callee is \<open>undefined\<close> and the call throws a
  \<open>TypeError\<close>. What follows the condition in the source (\<open>createPath\<close>,
  \<open>before:path:created\<close>, the attachment of the path to the objects, \<open>erasing:end\<close>,
  \<open>requestRenderAll\<close>, \<open>path:created\<close>) is never reached.
\<close>

definition finalizeAndAddPath ::
  "Collaborators \<Rightarrow> EraserBrush \<Rightarrow> Canvas \<Rightarrow> JsError option \<times> EraserBrush \<times> Canvas" where
  "finalizeAndAddPath ext this canvas =
     (let pts = (if decimate this \<noteq> 0
                 then decimatePoints (points this) (decimate this) (getZoom canvas)
                 else points this);
          this1 = this\<lparr>points := pts, isErasing := False\<rparr>;
          canvas1 = canvas\<lparr>topContextClears := Suc (topContextClears canvas)\<rparr>;
          pathData' = (if length pts > 1
                       then Some (convertPointsToSVGPath ext (brushWidth this1) pts)
                       else None)
      in case pathData' of
           None \<Rightarrow>
             (None, this1,
              canvas1\<lparr>fired := fired canvas1 @ [ErasingEnd None],
                      renderRequests := Suc (renderRequests canvas1)\<rparr>)
         | Some pd \<Rightarrow> (Some TypeError, this1, canvas1))"

text \<open>A concrete scene, brush and set of collaborators, for evaluating the model.\<close>

definition exampleCollaborators :: Collaborators where
  "exampleCollaborators =
     \<lparr>getSmoothPathFromPoints = (\<lambda>pts correction. [(''M'', [0, 0]), (''L'', [1, 1])]),
      joinPath = (\<lambda>pd. ''M 0 0 L 1 1''),
      newPathMatrix = (\<lambda>pd. (1, 0, 0, 1, 30, 40)),
      intersectsWithObject = (\<lambda>obj path. True),
      mergeClipPaths = (\<lambda>a b. a)\<rparr>"

text \<open>Collaborators for which every stroke converts to the empty SVG path.\<close>

definition emptyPathCollaborators :: Collaborators where
  "emptyPathCollaborators =
     exampleCollaborators
       \<lparr>getSmoothPathFromPoints :=
          (\<lambda>pts correction. [(''M'', [0, 0]), (''Q'', [0, 0, 0, 0]), (''L'', [0, 0])]),
        joinPath := (\<lambda>pd. ''M 0 0 Q 0 0 0 0 L 0 0'')\<rparr>"

definition exampleBrush :: EraserBrush where
  "exampleBrush =
     \<lparr>points = [Point 1 1], drawStraightLine = False, hasStraightLine = False,
      decimate = 0.4, brushWidth = 10, inverted = False, isErasing = True,
      patternCanvas = []\<rparr>"

definition exampleCanvas :: Canvas where
  "exampleCanvas =
     \<lparr>canvasObjects = [SceneObject 1 ErasableTrue False [] None False iMatrix,
                       SceneObject 2 ErasableFalse False [] None False iMatrix],
      objectsToRender = None, backgroundImage = None, overlayImage = None,
      backgroundColor = False, overlayColor = False, getZoom = 1,
      store = (\<lambda>i. \<lparr>visible = True, eraser = None, dirty = False\<rparr>),
      fired = [], renderRequests = 0, topContextClears = 0\<rparr>"

text \<open>
  An object of width and height \<open>100\<close> with the default stroke width \<open>1\<close>, centred at the
  origin, and a stand-in for \<open>sizeAfterTransform\<close> (which an unskewed object never calls).
\<close>

definition exampleObject :: ObjectOrigin where
  "exampleObject =
     \<lparr>this_top = 0, this_left = 0, this_width = 100, this_height = 100,
      this_flipX = False, this_flipY = False, this_scaleX = 1, this_scaleY = 1,
      this_skewX = 0, this_skewY = 0, this_originX = CENTER, this_originY = CENTER,
      this_angle = 0, this_strokeWidth = 1, this_strokeUniform = False\<rparr>"

definition exampleSizeAfterTransform :: "real \<Rightarrow> real \<Rightarrow> TComposeMatrixArgs \<Rightarrow> Point" where
  "exampleSizeAfterTransform w h options = Point w h"

section \<open>Properties\<close>

subsection \<open>Matrix algebra\<close>

lemma invertTransform_explicit:
  "invertTransform (a, b, c, d, e, f) =
     (let k = 1 / (a * d - b * c)
      in (k * d, - (k * b), - (k * c), k * a, k * (c * f - d * e), k * (b * e - a * f)))"
  by (simp add: Let_def right_diff_distrib)

text \<open>
  Claim C2. For every matrix \<open>M\<close> whose determinant \<open>a * d - b * c\<close> is not zero,
  \<open>multiplyTransformMatrices(M, invertTransform(M))\<close> is the identity matrix and
  \<open>invertTransform(invertTransform(M))\<close> is \<open>M\<close>. Over the reals both hold exactly,
  hence within every tolerance.
\<close>

theorem inverse_identity:
  assumes "det M \<noteq> 0"
  shows "multiplyTransformMatrices M (invertTransform M) False = iMatrix
         \<and> invertTransform (invertTransform M) = M"
proof (cases M)
  case (fields a b c d e f)
  define D where "D = a * d - b * c"
  define k where "k = 1 / D"
  from assms fields have nz: "D \<noteq> 0"
    by (simp add: det_def D_def)
  then have kD: "k * D = 1"
    by (simp add: k_def)
  have inv: "invertTransform (a, b, c, d, e, f)
               = (k * d, - (k * b), - (k * c), k * a, k * (c * f - d * e), k * (b * e - a * f))"
    unfolding invertTransform_explicit by (simp add: Let_def D_def k_def)
  have left: "multiplyTransformMatrices M (invertTransform M) False = iMatrix"
  proof -
    have lin: "a * (k * d) + c * - (k * b) = k * D" "b * (k * d) + d * - (k * b) = 0"
         "a * - (k * c) + c * (k * a) = 0" "b * - (k * c) + d * (k * a) = k * D"
      by (simp_all add: D_def algebra_simps)
    have tr: "a * (k * (c * f - d * e)) + c * (k * (b * e - a * f)) + e = (1 - k * D) * e"
         "b * (k * (c * f - d * e)) + d * (k * (b * e - a * f)) + f = (1 - k * D) * f"
      by (simp_all add: D_def algebra_simps)
    have "multiplyTransformMatrices M (invertTransform M) False
            = (a * (k * d) + c * - (k * b), b * (k * d) + d * - (k * b),
               a * - (k * c) + c * (k * a), b * - (k * c) + d * (k * a),
               a * (k * (c * f - d * e)) + c * (k * (b * e - a * f)) + e,
               b * (k * (c * f - d * e)) + d * (k * (b * e - a * f)) + f)"
      by (simp only: fields inv multiplyTransformMatrices.simps if_False)
    also have "\<dots> = iMatrix"
      by (simp only: lin tr kD iMatrix_def) simp
    finally show ?thesis .
  qed
  have k2: "k * d * (k * a) - - (k * b) * - (k * c) = k"
  proof -
    have "k * d * (k * a) - - (k * b) * - (k * c) = k * (k * D)"
      by (simp add: D_def algebra_simps)
    then show ?thesis by (simp add: kD)
  qed
  have Dk: "1 / k = D"
    using nz by (simp add: k_def)
  have right: "invertTransform (invertTransform M) = M"
  proof -
    have comps:
      "D * (k * a) = a" "- (D * - (k * b)) = b" "- (D * - (k * c)) = c" "D * (k * d) = d"
      using kD by (simp_all add: mult.assoc [symmetric] mult.commute [of D k])
    have "D * (- (k * c) * (k * (b * e - a * f)) - k * a * (k * (c * f - d * e)))
            = (k * D) * (k * D) * e"
      by (simp add: D_def algebra_simps)
    then have e_eq:
      "D * (- (k * c) * (k * (b * e - a * f)) - k * a * (k * (c * f - d * e))) = e"
      by (simp only: kD mult_1)
    have "D * (- (k * b) * (k * (c * f - d * e)) - k * d * (k * (b * e - a * f)))
            = (k * D) * (k * D) * f"
      by (simp add: D_def algebra_simps)
    then have f_eq:
      "D * (- (k * b) * (k * (c * f - d * e)) - k * d * (k * (b * e - a * f))) = f"
      by (simp only: kD mult_1)
    have "invertTransform (invertTransform M)
            = invertTransform (k * d, - (k * b), - (k * c), k * a,
                               k * (c * f - d * e), k * (b * e - a * f))"
      by (simp only: fields inv)
    also have "\<dots> = (D * (k * a), - (D * - (k * b)), - (D * - (k * c)), D * (k * d),
                       D * (- (k * c) * (k * (b * e - a * f)) - k * a * (k * (c * f - d * e))),
                       D * (- (k * b) * (k * (c * f - d * e)) - k * d * (k * (b * e - a * f))))"
      by (simp only: invertTransform_explicit Let_def k2 Dk)
    also have "\<dots> = M"
      by (simp only: comps e_eq f_eq fields)
    finally show ?thesis .
  qed
  from left right show ?thesis ..
qed

theorem inverse_identity_witness:
  "det (2, 1, 1, 1, 3, 4) \<noteq> 0
   \<and> multiplyTransformMatrices (2, 1, 1, 1, 3, 4) (invertTransform (2, 1, 1, 1, 3, 4)) False
       = iMatrix
   \<and> invertTransform (invertTransform (2, 1, 1, 1, 3, 4)) = (2, 1, 1, 1, 3, 4)"
proof -
  have h: "det (2, 1, 1, 1, 3, 4) \<noteq> 0"
    by (simp add: det_def)
  from inverse_identity [OF h] h show ?thesis
    by blast
qed

subsection \<open>Decomposition and composition\<close>

lemma atan2_bounds: "- pi < atan2 y x \<and> atan2 y x \<le> pi"
proof -
  have b: "- (pi / 2) < arctan (y / x)" "arctan (y / x) < pi / 2"
    using arctan_lbound [of "y / x"] arctan_ubound [of "y / x"] by blast+
  have neg: "x < 0 \<Longrightarrow> 0 \<le> y \<Longrightarrow> arctan (y / x) \<le> 0"
    by (simp add: divide_nonneg_neg arctan_le_zero_iff)
  have pos: "x < 0 \<Longrightarrow> y < 0 \<Longrightarrow> 0 < arctan (y / x)"
    by (simp add: divide_neg_neg zero_less_arctan_iff)
  show ?thesis
    using b neg pos pi_gt_zero unfolding atan2_def by (auto simp: not_less)
qed

lemma sqrt_one_plus_quot:
  fixes x y :: real
  assumes "x \<noteq> 0"
  shows "sqrt (1 + (y / x)\<^sup>2) = sqrt (x\<^sup>2 + y\<^sup>2) / \<bar>x\<bar>"
proof -
  have "1 + (y / x)\<^sup>2 = (x\<^sup>2 + y\<^sup>2) / x\<^sup>2"
    using assms by (simp add: power_divide field_simps)
  then show ?thesis
    by (simp add: real_sqrt_divide)
qed

lemma cos_sin_atan2:
  assumes "x \<noteq> 0 \<or> y \<noteq> 0"
  shows "cos (atan2 y x) = x / sqrt (x\<^sup>2 + y\<^sup>2)"
    and "sin (atan2 y x) = y / sqrt (x\<^sup>2 + y\<^sup>2)"
proof -
  define r where "r = sqrt (x\<^sup>2 + y\<^sup>2)"
  have rpos: "0 < r"
    using assms unfolding r_def by (auto simp: sum_power2_gt_zero_iff)
  have c: "x \<noteq> 0 \<Longrightarrow> cos (arctan (y / x)) = \<bar>x\<bar> / r"
    by (simp add: cos_arctan sqrt_one_plus_quot r_def)
  have s: "x \<noteq> 0 \<Longrightarrow> sin (arctan (y / x)) = (y / x) * (\<bar>x\<bar> / r)"
    by (simp add: sin_arctan sqrt_one_plus_quot r_def)
  have y0: "x = 0 \<Longrightarrow> r = \<bar>y\<bar>"
    by (simp add: r_def)
  show "cos (atan2 y x) = x / sqrt (x\<^sup>2 + y\<^sup>2)"
    using assms c y0 rpos unfolding atan2_def r_def [symmetric]
    by (auto simp: not_less)
  show "sin (atan2 y x) = y / sqrt (x\<^sup>2 + y\<^sup>2)"
    using assms s y0 rpos unfolding atan2_def r_def [symmetric]
    by (auto simp: not_less)
qed

lemma atan2_polar:
  assumes "0 < r" "- pi < t" "t \<le> pi"
  shows "atan2 (r * sin t) (r * cos t) = t"
proof -
  define z where "z = Complex (r * cos t) (r * sin t)"
  have nrm: "sqrt ((r * cos t)\<^sup>2 + (r * sin t)\<^sup>2) = r"
  proof -
    have "(r * cos t)\<^sup>2 + (r * sin t)\<^sup>2 = r\<^sup>2 * ((sin t)\<^sup>2 + (cos t)\<^sup>2)"
      by (simp only: power_mult_distrib distrib_left add.commute)
    also have "\<dots> = r\<^sup>2"
      by (simp only: sin_cos_squared_add mult_1_right)
    finally show ?thesis using assms(1) by simp
  qed
  have nz: "r * cos t \<noteq> 0 \<or> r * sin t \<noteq> 0"
    using assms(1) sin_zero_abs_cos_one [of t] by auto
  have "sgn z = cis t"
    using assms(1) by (simp add: complex_eq_iff z_def cmod_def nrm)
  then have A: "Arg z = t"
    using assms(2,3) by (rule cis_Arg_unique)
  have "sgn z = cis (atan2 (r * sin t) (r * cos t))"
    using assms(1) cos_sin_atan2 [OF nz]
    by (simp add: complex_eq_iff z_def cmod_def nrm)
  then have "Arg z = atan2 (r * sin t) (r * cos t)"
    using atan2_bounds by (intro cis_Arg_unique) auto
  with A show ?thesis by simp
qed

lemma degrees_radians [simp]:
  "degreesToRadians (radiansToDegrees t) = t" "radiansToDegrees (degreesToRadians d) = d"
  by (simp_all add: degreesToRadians_def radiansToDegrees_def)

lemma composeMatrix_explicit:
  assumes "skewY C = 0"
  shows "composeMatrix C =
           (cos (degreesToRadians (angle C)) * (if flipX C then - scaleX C else scaleX C),
            sin (degreesToRadians (angle C)) * (if flipX C then - scaleX C else scaleX C),
            cos (degreesToRadians (angle C))
              * ((if flipX C then - scaleX C else scaleX C) * angleToSkew (skewX C))
              - sin (degreesToRadians (angle C)) * (if flipY C then - scaleY C else scaleY C),
            sin (degreesToRadians (angle C))
              * ((if flipX C then - scaleX C else scaleX C) * angleToSkew (skewX C))
              + cos (degreesToRadians (angle C)) * (if flipY C then - scaleY C else scaleY C),
            translateX C, translateY C)"
proof -
  have dims: "calcDimensionsMatrix C =
                ((if flipX C then - scaleX C else scaleX C), 0,
                 (if flipX C then - scaleX C else scaleX C) * angleToSkew (skewX C),
                 (if flipY C then - scaleY C else scaleY C), 0, 0)"
    using assms
    by (simp add: calcDimensionsMatrix_def multiplyTransformMatrixArray_def iMatrix_def
        createScaleMatrix_def createSkewXMatrix_def angleToSkew_def degreesToRadians_def)
  show ?thesis
    unfolding composeMatrix_def dims
    by (simp add: multiplyTransformMatrixArray_def iMatrix_def createTranslateMatrix_def
        createRotateMatrix_def degreesToRadians_def Let_def)
qed

lemma compose_decompose:
  assumes nz: "a\<^sup>2 + b\<^sup>2 \<noteq> 0"
  shows "composeMatrix (qrDecompose (a, b, c, d, e, f)) = (a, b, c, d, e, f)"
proof -
  define r where "r = sqrt (a\<^sup>2 + b\<^sup>2)"
  have r2: "r * r = a\<^sup>2 + b\<^sup>2"
    by (simp add: r_def)
  have dpos: "0 < a\<^sup>2 + b\<^sup>2"
    using nz by (metis not_sum_power2_lt_zero linorder_neqE_linordered_idom)
  then have rpos: "0 < r"
    by (simp add: r_def)
  have ab: "a \<noteq> 0 \<or> b \<noteq> 0"
    using nz by auto
  have ct: "cos (atan2 b a) = a / r" and st: "sin (atan2 b a) = b / r"
    using cos_sin_atan2 [OF ab] by (simp_all add: r_def)
  have tk: "tan (atan2 (a * c + b * d) (a\<^sup>2 + b\<^sup>2)) = (a * c + b * d) / (r * r)"
    using dpos by (simp add: atan2_def tan_arctan r2)
  have c_eq: "a * (a * c + b * d) / (r * r) - b * (a * d - c * b) / (r * r) = c"
  proof -
    have "a * (a * c + b * d) / (r * r) - b * (a * d - c * b) / (r * r)
            = (a * (a * c + b * d) - b * (a * d - c * b)) / (r * r)"
      by (simp only: diff_divide_distrib)
    also have "a * (a * c + b * d) - b * (a * d - c * b) = (a\<^sup>2 + b\<^sup>2) * c"
      by (simp add: algebra_simps power2_eq_square)
    also have "(a\<^sup>2 + b\<^sup>2) * c / (r * r) = c"
      by (simp only: r2 nonzero_mult_div_cancel_left [OF nz])
    finally show ?thesis .
  qed
  have d_eq: "b * (a * c + b * d) / (r * r) + a * (a * d - c * b) / (r * r) = d"
  proof -
    have "b * (a * c + b * d) / (r * r) + a * (a * d - c * b) / (r * r)
            = (b * (a * c + b * d) + a * (a * d - c * b)) / (r * r)"
      by (simp only: add_divide_distrib)
    also have "b * (a * c + b * d) + a * (a * d - c * b) = (a\<^sup>2 + b\<^sup>2) * d"
      by (simp add: algebra_simps power2_eq_square)
    also have "(a\<^sup>2 + b\<^sup>2) * d / (r * r) = d"
      by (simp only: r2 nonzero_mult_div_cancel_left [OF nz])
    finally show ?thesis .
  qed
  have q: "qrDecompose (a, b, c, d, e, f) =
             \<lparr>translateX = e, translateY = f,
              angle = radiansToDegrees (atan2 b a),
              scaleX = r, scaleY = (a * d - c * b) / r,
              flipX = False, flipY = False,
              skewX = radiansToDegrees (atan2 (a * c + b * d) (a\<^sup>2 + b\<^sup>2)), skewY = 0\<rparr>"
    by (simp add: Let_def r_def orZero_def)
  show ?thesis
    unfolding q
    by (subst composeMatrix_explicit)
       (use rpos in \<open>simp_all add: angleToSkew_def ct st tk c_eq d_eq\<close>)
qed

lemma qrDecompose_polar:
  assumes s: "0 < s" and t: "- pi < t" "t \<le> pi" and p: "- (pi / 2) < p" "p < pi / 2"
  shows "qrDecompose (cos t * s, sin t * s,
                      cos t * (s * tan p) - sin t * sy,
                      sin t * (s * tan p) + cos t * sy, tx, ty)
           = \<lparr>translateX = tx, translateY = ty, angle = radiansToDegrees t,
              scaleX = s, scaleY = sy, flipX = False, flipY = False,
              skewX = radiansToDegrees p, skewY = 0\<rparr>"
proof -
  have denom: "(cos t * s)\<^sup>2 + (sin t * s)\<^sup>2 = s\<^sup>2"
  proof -
    have "(cos t * s)\<^sup>2 + (sin t * s)\<^sup>2 = ((sin t)\<^sup>2 + (cos t)\<^sup>2) * s\<^sup>2"
      by (simp only: power_mult_distrib distrib_right add.commute)
    then show ?thesis
      by (simp only: sin_cos_squared_add mult_1)
  qed
  have ang: "atan2 (sin t * s) (cos t * s) = t"
    using atan2_polar [OF s t] by (simp only: mult.commute)
  have sx: "sqrt (s\<^sup>2) = s"
    using s by simp
  have sc: "sin t * sin t + cos t * cos t = 1"
    using sin_cos_squared_add [of t] by (simp only: power2_eq_square)
  have dt_gen: "c' * s * (s' * (s * T) + c' * sy) - (c' * (s * T) - s' * sy) * (s' * s)
                  = (s' * s' + c' * c') * (s * sy)" for c' s' T :: real
    by (simp add: algebra_simps)
  have dt: "cos t * s * (sin t * (s * tan p) + cos t * sy)
              - (cos t * (s * tan p) - sin t * sy) * (sin t * s)
            = s * sy"
    by (simp only: dt_gen sc mult_1)
  have sk_gen: "c' * s * (c' * (s * T) - s' * sy) + s' * s * (s' * (s * T) + c' * sy)
                  = (s' * s' + c' * c') * (s\<^sup>2 * T)" for c' s' T :: real
    by (simp add: algebra_simps power2_eq_square)
  have sk: "cos t * s * (cos t * (s * tan p) - sin t * sy)
              + sin t * s * (sin t * (s * tan p) + cos t * sy)
            = s\<^sup>2 * tan p"
    by (simp only: sk_gen sc mult_1)
  have s2: "0 < s\<^sup>2"
    using s by simp
  have skw: "atan2 (s\<^sup>2 * tan p) (s\<^sup>2) = p"
    using s2 s p by (simp add: atan2_def arctan_tan)
  have sy_eq: "s * sy / s = sy"
    using s by simp
  show ?thesis
    unfolding qrDecompose.simps Let_def denom ang sx dt sk skw sy_eq orZero_def
    by simp
qed

lemma decompose_compose:
  assumes "0 < scaleX C" "\<not> flipX C" "\<not> flipY C" "skewY C = 0"
    and "- 180 < angle C" "angle C \<le> 180" "- 90 < skewX C" "skewX C < 90"
  shows "qrDecompose (composeMatrix C) = C\<lparr>flipX := False, flipY := False\<rparr>"
proof -
  have k: "0 < pi / 180"
    by simp
  have t: "- pi < degreesToRadians (angle C)" "degreesToRadians (angle C) \<le> pi"
    using mult_strict_right_mono [OF assms(5) k] mult_right_mono [OF assms(6) less_imp_le [OF k]]
    by (simp_all add: degreesToRadians_def)
  have p: "- (pi / 2) < degreesToRadians (skewX C)" "degreesToRadians (skewX C) < pi / 2"
    using mult_strict_right_mono [OF assms(7) k] mult_strict_right_mono [OF assms(8) k]
    by (simp_all add: degreesToRadians_def)
  have "composeMatrix C =
          (cos (degreesToRadians (angle C)) * scaleX C,
           sin (degreesToRadians (angle C)) * scaleX C,
           cos (degreesToRadians (angle C)) * (scaleX C * tan (degreesToRadians (skewX C)))
             - sin (degreesToRadians (angle C)) * scaleY C,
           sin (degreesToRadians (angle C)) * (scaleX C * tan (degreesToRadians (skewX C)))
             + cos (degreesToRadians (angle C)) * scaleY C,
           translateX C, translateY C)"
    using assms(2,3) by (simp add: composeMatrix_explicit [OF assms(4)] angleToSkew_def)
  then have "qrDecompose (composeMatrix C)
               = \<lparr>translateX = translateX C, translateY = translateY C,
                  angle = radiansToDegrees (degreesToRadians (angle C)),
                  scaleX = scaleX C, scaleY = scaleY C, flipX = False, flipY = False,
                  skewX = radiansToDegrees (degreesToRadians (skewX C)), skewY = 0\<rparr>"
    by (simp only: qrDecompose_polar [OF assms(1) t p])
  also have "\<dots> = C\<lparr>flipX := False, flipY := False\<rparr>"
    using assms(4) by simp
  finally show ?thesis .
qed

text \<open>
  Claim C1, as stated, asks that \<open>qrDecompose(composeMatrix(C))\<close> recover \<open>scaleX\<close> for
  every component record \<open>C\<close>. With \<open>scaleX = -1\<close> and every other component at its
  default the matrix is \<open>[-1, 0, 0, 1, 0, 0]\<close>, and \<open>qrDecompose\<close> returns \<open>scaleX = 1\<close>
  (with \<open>angle = 180\<close> and \<open>scaleY = -1\<close>): the recovered value is \<open>2\<close> away from the
  component. Every number of this run is an exact double.
\<close>

theorem decompose_round_trip_counterexample:
  "composeMatrix (defaultArgs\<lparr>scaleX := - 1\<rparr>) = (- 1, 0, 0, 1, 0, 0)
   \<and> scaleX (qrDecompose (composeMatrix (defaultArgs\<lparr>scaleX := - 1\<rparr>))) = 1
   \<and> scaleX (defaultArgs\<lparr>scaleX := - 1\<rparr>) = - 1
   \<and> \<not> \<bar>scaleX (qrDecompose (composeMatrix (defaultArgs\<lparr>scaleX := - 1\<rparr>)))
          - scaleX (defaultArgs\<lparr>scaleX := - 1\<rparr>)\<bar> \<le> 1 / 10 ^ 9"
  by (simp add: composeMatrix_def calcDimensionsMatrix_def defaultArgs_def
      multiplyTransformMatrixArray_def createTranslateMatrix_def createScaleMatrix_def
      iMatrix_def Let_def)

text \<open>
  Claim C1, amended. The \<open>skewY\<close> that \<open>qrDecompose\<close> returns is \<open>0\<close> for every matrix;
  \<open>composeMatrix(qrDecompose(M))\<close> is \<open>M\<close> for every invertible \<open>M\<close>; and
  \<open>qrDecompose(composeMatrix(C))\<close> recovers \<open>scaleX\<close>, \<open>scaleY\<close>, \<open>angle\<close> and \<open>skewX\<close> of
  \<open>C\<close> for the component records in the range of the decomposition: \<open>scaleX > 0\<close>, no
  flip, \<open>skewY = 0\<close>, \<open>-180 < angle \<le> 180\<close> and \<open>-90 < skewX < 90\<close>. Over the reals the
  equalities are exact.
\<close>

theorem decompose_round_trip:
  "skewY (qrDecompose M) = 0
   \<and> (det M \<noteq> 0 \<longrightarrow> composeMatrix (qrDecompose M) = M)
   \<and> (0 < scaleX C \<and> \<not> flipX C \<and> \<not> flipY C \<and> skewY C = 0
        \<and> - 180 < angle C \<and> angle C \<le> 180 \<and> - 90 < skewX C \<and> skewX C < 90 \<longrightarrow>
      scaleX (qrDecompose (composeMatrix C)) = scaleX C
      \<and> scaleY (qrDecompose (composeMatrix C)) = scaleY C
      \<and> angle (qrDecompose (composeMatrix C)) = angle C
      \<and> skewX (qrDecompose (composeMatrix C)) = skewX C)"
proof (intro conjI impI)
  show "skewY (qrDecompose M) = 0"
    by (cases M) (simp add: Let_def)
next
  assume inv: "det M \<noteq> 0"
  obtain a b c d e f where M: "M = (a, b, c, d, e, f)"
    by (cases M) auto
  have "a\<^sup>2 + b\<^sup>2 \<noteq> 0"
  proof
    assume "a\<^sup>2 + b\<^sup>2 = 0"
    then have "a = 0 \<and> b = 0"
      by (simp add: sum_power2_eq_zero_iff)
    with inv M show False
      by (simp add: det_def)
  qed
  then show "composeMatrix (qrDecompose M) = M"
    unfolding M by (rule compose_decompose)
next
  assume range: "0 < scaleX C \<and> \<not> flipX C \<and> \<not> flipY C \<and> skewY C = 0
        \<and> - 180 < angle C \<and> angle C \<le> 180 \<and> - 90 < skewX C \<and> skewX C < 90"
  then have eq: "qrDecompose (composeMatrix C) = C\<lparr>flipX := False, flipY := False\<rparr>"
    by (intro decompose_compose) simp_all
  show "scaleX (qrDecompose (composeMatrix C)) = scaleX C"
    and "scaleY (qrDecompose (composeMatrix C)) = scaleY C"
    and "angle (qrDecompose (composeMatrix C)) = angle C"
    and "skewX (qrDecompose (composeMatrix C)) = skewX C"
    by (simp_all add: eq)
qed

theorem decompose_round_trip_witness:
  "skewY (qrDecompose (2, 1, 1, 1, 3, 4)) = 0
   \<and> det (2, 1, 1, 1, 3, 4) \<noteq> 0
   \<and> composeMatrix (qrDecompose (2, 1, 1, 1, 3, 4)) = (2, 1, 1, 1, 3, 4)
   \<and> 0 < scaleX (defaultArgs\<lparr>angle := 90, scaleX := 2, scaleY := 3, skewX := 45\<rparr>)
   \<and> scaleX (qrDecompose (composeMatrix
         (defaultArgs\<lparr>angle := 90, scaleX := 2, scaleY := 3, skewX := 45\<rparr>))) = 2
   \<and> scaleY (qrDecompose (composeMatrix
         (defaultArgs\<lparr>angle := 90, scaleX := 2, scaleY := 3, skewX := 45\<rparr>))) = 3
   \<and> angle (qrDecompose (composeMatrix
         (defaultArgs\<lparr>angle := 90, scaleX := 2, scaleY := 3, skewX := 45\<rparr>))) = 90
   \<and> skewX (qrDecompose (composeMatrix
         (defaultArgs\<lparr>angle := 90, scaleX := 2, scaleY := 3, skewX := 45\<rparr>))) = 45"
proof -
  let ?M = "(2, 1, 1, 1, 3, 4) :: TMat2D"
  let ?C = "defaultArgs\<lparr>angle := 90, scaleX := 2, scaleY := 3, skewX := 45\<rparr>"
  have d: "det ?M \<noteq> 0"
    by (simp add: det_def)
  have r: "0 < scaleX ?C \<and> \<not> flipX ?C \<and> \<not> flipY ?C \<and> skewY ?C = 0
        \<and> - 180 < angle ?C \<and> angle ?C \<le> 180 \<and> - 90 < skewX ?C \<and> skewX ?C < 90"
    by (simp add: defaultArgs_def)
  have v: "scaleX ?C = 2" "scaleY ?C = 3" "angle ?C = 90" "skewX ?C = 45"
    by (simp_all add: defaultArgs_def)
  from decompose_round_trip [of ?M ?C] d r
  have "skewY (qrDecompose ?M) = 0" "composeMatrix (qrDecompose ?M) = ?M"
    "scaleX (qrDecompose (composeMatrix ?C)) = scaleX ?C"
    "scaleY (qrDecompose (composeMatrix ?C)) = scaleY ?C"
    "angle (qrDecompose (composeMatrix ?C)) = angle ?C"
    "skewX (qrDecompose (composeMatrix ?C)) = skewX ?C"
    by blast+
  with d r v show ?thesis
    by (simp only: simp_thms)
qed

subsection \<open>Rotation about a pivot\<close>

lemma degreesToRadians_90: "degreesToRadians 90 = pi / 2"
  by (simp add: degreesToRadians_def)

lemma createRotateMatrix_pivot_fixed:
  assumes "x \<noteq> 0" "y \<noteq> 0"
  shows "transformPoint (Point x y) (createRotateMatrix a x y) False = Point x y"
  using assms by (simp add: transformPoint_def createRotateMatrix_def Let_def)

lemma createRotateMatrix_pivot_on_axis:
  assumes "y \<noteq> 0"
  shows "transformPoint (Point 0 y) (createRotateMatrix a 0 y) False
           = Point (- sin (degreesToRadians a) * y) y"
  using assms by (simp add: transformPoint_def createRotateMatrix_def Let_def)

text \<open>
  Claim C3 says that the matrix of \<open>createRotateMatrix({angle: a}, {x, y})\<close> leaves the
  pivot \<open>(x, y)\<close> where it is, also when exactly one of \<open>x\<close>, \<open>y\<close> is zero. The code tests
  each pivot coordinate for truthiness by itself, so that with \<open>x = 0\<close> the translation
  \<open>e\<close> is \<open>0\<close> where the documented form has \<open>y * sin(a)\<close>. At the angle \<open>90\<close> and the
  pivot \<open>(0, 1)\<close> the matrix is \<open>[0, 1, -1, 0, 0, 1]\<close> and the pivot is sent to \<open>(-1, 1)\<close>.
\<close>

theorem createRotateMatrix_moves_pivot:
  "createRotateMatrix 90 0 1 = (0, 1, - 1, 0, 0, 1)
   \<and> transformPoint (Point 0 1) (createRotateMatrix 90 0 1) False = Point (- 1) 1"
  by (simp add: transformPoint_def createRotateMatrix_def degreesToRadians_90 Let_def)

subsection \<open>Bounding box of points\<close>

lemma foldl_min_max_split:
  "foldl (\<lambda>(mn, mx) curr. (min_pt mn curr, max_pt mx curr)) (a, b) ps
     = (foldl min_pt a ps, foldl max_pt b ps)"
  by (induction ps arbitrary: a b) simp_all

lemma Min_insert_min:
  fixes a b :: real
  assumes "finite X"
  shows "Min (insert (min a b) X) = Min (insert a (insert b X))"
proof (cases "X = {}")
  case True
  then show ?thesis by (simp add: min_def)
next
  case False
  with assms show ?thesis
    by (simp add: min.assoc)
qed

lemma Max_insert_max:
  fixes a b :: real
  assumes "finite X"
  shows "Max (insert (max a b) X) = Max (insert a (insert b X))"
proof (cases "X = {}")
  case True
  then show ?thesis by (simp add: max_def)
next
  case False
  with assms show ?thesis
    by (simp add: max.assoc)
qed

lemma foldl_min_pt:
  "x_of (foldl min_pt m ps) = Min (insert (x_of m) (x_of ` set ps))"
  "y_of (foldl min_pt m ps) = Min (insert (y_of m) (y_of ` set ps))"
  by (induction ps arbitrary: m) (simp_all add: min_pt_def Min_insert_min)

lemma foldl_max_pt:
  "x_of (foldl max_pt m ps) = Max (insert (x_of m) (x_of ` set ps))"
  "y_of (foldl max_pt m ps) = Max (insert (y_of m) (y_of ` set ps))"
  by (induction ps arbitrary: m) (simp_all add: max_pt_def Max_insert_max)

lemma makeBoundingBoxFromPoints_nonempty:
  assumes "ps \<noteq> []"
  shows "makeBoundingBoxFromPoints ps =
           \<lparr>left = Min (x_of ` set ps), top = Min (y_of ` set ps),
            width = Max (x_of ` set ps) - Min (x_of ` set ps),
            height = Max (y_of ` set ps) - Min (y_of ` set ps)\<rparr>"
proof -
  have hd_in: "insert (f (hd ps)) (f ` set ps) = f ` set ps" for f :: "Point \<Rightarrow> real"
    using assms by (cases ps) auto
  show ?thesis
    using assms
    by (simp add: makeBoundingBoxFromPoints_def foldl_min_max_split subtract_def
        foldl_min_pt foldl_max_pt hd_in)
qed

lemma makeBoundingBoxFromPoints_set:
  assumes "set ps = set qs"
  shows "makeBoundingBoxFromPoints ps = makeBoundingBoxFromPoints qs"
proof (cases "ps = []")
  case True
  with assms have "qs = []" by simp
  with True show ?thesis by simp
next
  case False
  with assms have "qs \<noteq> []" by auto
  with False assms show ?thesis
    by (simp add: makeBoundingBoxFromPoints_nonempty)
qed

text \<open>
  Claim C10. \<open>makeBoundingBoxFromPoints\<close> of the empty list is the zero box; of a
  non-empty list it has \<open>left\<close> the least \<open>x\<close>, \<open>top\<close> the least \<open>y\<close>, \<open>width\<close> the greatest
  \<open>x\<close> minus the least and \<open>height\<close> the greatest \<open>y\<close> minus the least; and two lists that
  are permutations of each other have the same box.
\<close>

theorem makeBoundingBoxFromPoints_total:
  "makeBoundingBoxFromPoints [] = \<lparr>left = 0, top = 0, width = 0, height = 0\<rparr>
   \<and> (ps \<noteq> [] \<longrightarrow>
        left (makeBoundingBoxFromPoints ps) = Min (x_of ` set ps)
        \<and> top (makeBoundingBoxFromPoints ps) = Min (y_of ` set ps)
        \<and> width (makeBoundingBoxFromPoints ps) = Max (x_of ` set ps) - Min (x_of ` set ps)
        \<and> height (makeBoundingBoxFromPoints ps) = Max (y_of ` set ps) - Min (y_of ` set ps))
   \<and> (mset ps = mset qs \<longrightarrow> makeBoundingBoxFromPoints ps = makeBoundingBoxFromPoints qs)"
proof (intro conjI impI)
  show "makeBoundingBoxFromPoints [] = \<lparr>left = 0, top = 0, width = 0, height = 0\<rparr>"
    by (simp add: makeBoundingBoxFromPoints_def)
next
  assume "mset ps = mset qs"
  then have "set ps = set qs"
    by (rule mset_eq_setD)
  then show "makeBoundingBoxFromPoints ps = makeBoundingBoxFromPoints qs"
    by (rule makeBoundingBoxFromPoints_set)
qed (simp_all add: makeBoundingBoxFromPoints_nonempty)

theorem makeBoundingBoxFromPoints_total_witness:
  "[Point 3 1, Point (- 2) 5, Point 0 0] \<noteq> []
   \<and> makeBoundingBoxFromPoints [Point 3 1, Point (- 2) 5, Point 0 0]
       = \<lparr>left = - 2, top = 0, width = 5, height = 5\<rparr>
   \<and> mset [Point 3 1, Point (- 2) 5, Point 0 0] = mset [Point 0 0, Point 3 1, Point (- 2) 5]
   \<and> makeBoundingBoxFromPoints [Point 0 0, Point 3 1, Point (- 2) 5]
       = \<lparr>left = - 2, top = 0, width = 5, height = 5\<rparr>"
proof -
  let ?ps = "[Point 3 1, Point (- 2) 5, Point 0 0]"
  let ?qs = "[Point 0 0, Point 3 1, Point (- 2) 5]"
  have ne: "?ps \<noteq> []" by simp
  have perm: "mset ?ps = mset ?qs" by (simp add: add.commute)
  from makeBoundingBoxFromPoints_total [of ?ps ?qs] ne perm
  have f: "left (makeBoundingBoxFromPoints ?ps) = Min (x_of ` set ?ps)"
    "top (makeBoundingBoxFromPoints ?ps) = Min (y_of ` set ?ps)"
    "width (makeBoundingBoxFromPoints ?ps) = Max (x_of ` set ?ps) - Min (x_of ` set ?ps)"
    "height (makeBoundingBoxFromPoints ?ps) = Max (y_of ` set ?ps) - Min (y_of ` set ?ps)"
    and e: "makeBoundingBoxFromPoints ?ps = makeBoundingBoxFromPoints ?qs"
    by blast+
  have v: "makeBoundingBoxFromPoints ?ps = \<lparr>left = - 2, top = 0, width = 5, height = 5\<rparr>"
    using f by (intro TBBox.equality) simp_all
  with e ne perm show ?thesis
    by simp
qed

subsection \<open>Stroke capture\<close>

lemma decimateLoop_invariant:
  assumes "set newPoints \<subseteq> set pts" "l < length pts"
  shows "set (decimateLoop pts distance zoom l i lastPoint newPoints) \<subseteq> set pts
         \<and> length newPoints \<le> length (decimateLoop pts distance zoom l i lastPoint newPoints)"
  using assms
proof (induction pts distance zoom l i lastPoint newPoints rule: decimateLoop.induct)
  case (1 pts distance zoom l i lastPoint newPoints)
  show ?case
  proof (cases "i < l - 1")
    case False
    with "1.prems" show ?thesis
      by (simp add: decimateLoop.simps [of pts distance zoom l i])
  next
    case True
    with "1.prems" have inb: "pts ! i \<in> set pts"
      by simp
    define cDistance where
      "cDistance = (x_of lastPoint - x_of (pts ! i)) ^ 2 + (y_of lastPoint - y_of (pts ! i)) ^ 2"
    show ?thesis
    proof (cases "reachesDistance cDistance distance zoom")
      case keep: True
      have "set (newPoints @ [pts ! i]) \<subseteq> set pts"
        using "1.prems"(1) inb by simp
      from "1.IH"(1) [OF True cDistance_def keep this "1.prems"(2)]
      show ?thesis
        using True keep
        by (simp add: decimateLoop.simps [of pts distance zoom l i lastPoint newPoints]
            cDistance_def [symmetric] Let_def)
    next
      case drop: False
      from "1.IH"(2) [OF True cDistance_def drop "1.prems"]
      show ?thesis
        using True drop
        by (simp add: decimateLoop.simps [of pts distance zoom l i lastPoint newPoints]
            cDistance_def [symmetric] Let_def)
    qed
  qed
qed

text \<open>
  Claim C7. For a list of at least two points and every distance (and zoom),
  \<open>decimatePoints\<close> returns a list of at least two points, whose last element is the last
  input point, and all of whose points occur in the input.
\<close>

theorem decimatePoints_invariants:
  assumes "2 \<le> length pts"
  shows "2 \<le> length (decimatePoints pts distance zoom)
         \<and> last (decimatePoints pts distance zoom) = last pts
         \<and> set (decimatePoints pts distance zoom) \<subseteq> set pts"
proof (cases "length pts \<le> 2")
  case True
  with assms show ?thesis
    by (simp add: decimatePoints_def)
next
  case False
  then have len: "length pts - 1 < length pts" and ne: "pts \<noteq> []" and z: "0 < length pts"
    by auto
  have first: "set [pts ! 0] \<subseteq> set pts"
    using z by simp
  note inv = decimateLoop_invariant [OF first len, of distance zoom 1 "pts ! 0"]
  have lastpt: "pts ! (length pts - 1) = last pts"
    using ne by (simp add: last_conv_nth)
  have inl: "last pts \<in> set pts"
    using ne by simp
  from False inv lastpt inl show ?thesis
    by (simp add: decimatePoints_def Let_def)
qed

theorem decimatePoints_invariants_witness:
  "2 \<le> length [Point 0 0, Point 1 0, Point 5 0, Point 6 0, Point 7 0]
   \<and> decimatePoints [Point 0 0, Point 1 0, Point 5 0, Point 6 0, Point 7 0] 2 1
       = [Point 0 0, Point 5 0, Point 7 0]
   \<and> 2 \<le> length (decimatePoints [Point 0 0, Point 1 0, Point 5 0, Point 6 0, Point 7 0] 2 1)
   \<and> last (decimatePoints [Point 0 0, Point 1 0, Point 5 0, Point 6 0, Point 7 0] 2 1)
       = last [Point 0 0, Point 1 0, Point 5 0, Point 6 0, Point 7 0]
   \<and> set (decimatePoints [Point 0 0, Point 1 0, Point 5 0, Point 6 0, Point 7 0] 2 1)
       \<subseteq> set [Point 0 0, Point 1 0, Point 5 0, Point 6 0, Point 7 0]"
proof -
  let ?ps = "[Point 0 0, Point 1 0, Point 5 0, Point 6 0, Point 7 0]"
  have h: "2 \<le> length ?ps" by simp
  have v: "decimatePoints ?ps 2 1 = [Point 0 0, Point 5 0, Point 7 0]"
    by (simp add: decimatePoints_def reachesDistance_def Let_def)
  from decimatePoints_invariants [OF h, of 2 1] h v show ?thesis
    by blast
qed

text \<open>
  Claim C6, as stated, is about every session state, whatever the number of captured
  points. The duplicate test of \<open>_addPoint\<close> is guarded by \<open>this._points.length > 1\<close>: with exactly one
  captured point, a point equal to it is appended and \<open>true\<close> is returned. \<open>onMouseDown\<close>
  relies on this: it adds the pointer twice so that a click without movement draws a dot.
\<close>

theorem addPoint_duplicate_counterexample:
  "eq (Point 3 4) (last [Point 3 4])
   \<and> addPoint \<lparr>points = [Point 3 4], drawStraightLine = False, hasStraightLine = False,
                  decimate = 0.4, brushWidth = 1\<rparr> (Point 3 4)
       = (True, \<lparr>points = [Point 3 4, Point 3 4], drawStraightLine = False,
                 hasStraightLine = False, decimate = 0.4, brushWidth = 1\<rparr>)
   \<and> fst (addPoint \<lparr>points = [Point 3 4], drawStraightLine = False, hasStraightLine = False,
                       decimate = 0.4, brushWidth = 1\<rparr> (Point 3 4)) \<noteq> False
   \<and> points (snd (addPoint \<lparr>points = [Point 3 4], drawStraightLine = False,
                                hasStraightLine = False, decimate = 0.4, brushWidth = 1\<rparr>
                               (Point 3 4))) \<noteq> [Point 3 4]"
  by (simp add: addPoint_def eq_def)

text \<open>
  Claim C6, amended. When at least two points have been captured, \<open>_addPoint\<close> with a
  point equal to the last captured point returns \<open>false\<close> and leaves the brush, and so the
  captured points, unchanged.
\<close>

theorem addPoint_rejects_duplicate:
  assumes "1 < length (points this)" "eq point (last (points this))"
  shows "addPoint this point = (False, this)"
proof -
  from assms(1) have "points this \<noteq> []"
    by auto
  then have "points this ! (length (points this) - 1) = last (points this)"
    by (simp add: last_conv_nth)
  with assms show ?thesis
    by (simp add: addPoint_def)
qed

theorem addPoint_rejects_duplicate_witness:
  "1 < length (points \<lparr>points = [Point 0 0, Point 3 4], drawStraightLine = True,
                        hasStraightLine = False, decimate = 0.4, brushWidth = 1\<rparr>)
   \<and> eq (Point 3 4) (last (points \<lparr>points = [Point 0 0, Point 3 4], drawStraightLine = True,
                        hasStraightLine = False, decimate = 0.4, brushWidth = 1\<rparr>))
   \<and> addPoint \<lparr>points = [Point 0 0, Point 3 4], drawStraightLine = True,
                hasStraightLine = False, decimate = 0.4, brushWidth = 1\<rparr> (Point 3 4)
       = (False, \<lparr>points = [Point 0 0, Point 3 4], drawStraightLine = True,
                  hasStraightLine = False, decimate = 0.4, brushWidth = 1\<rparr>)"
proof -
  let ?b = "\<lparr>points = [Point 0 0, Point 3 4], drawStraightLine = True,
             hasStraightLine = False, decimate = 0.4, brushWidth = 1\<rparr>"
  have h1: "1 < length (points ?b)" by simp
  have h2: "eq (Point 3 4) (last (points ?b))" by (simp add: eq_def)
  from addPoint_rejects_duplicate [OF h1 h2] h1 h2 show ?thesis
    by blast
qed

subsection \<open>Absolute corners\<close>

lemma createRotateMatrix_zero: "createRotateMatrix 0 0 0 = (1, 0, 0, 1, 0, 0)"
  by (simp add: createRotateMatrix_def degreesToRadians_def)

lemma getTransformedDimensions_plain:
  assumes "this_skewX this = 0" "this_skewY this = 0" "this_scaleX this = 1" "this_scaleY this = 1"
  shows "getTransformedDimensions sat this
           = Point (this_width this + this_strokeWidth this)
                   (this_height this + this_strokeWidth this)"
  using assms by (simp add: getTransformedDimensions_def scalarAdd_def Let_def)

text \<open>
  Claim C4, as stated, gives the corners \<open>(cx \<plusminus> W/2, cy \<plusminus> H/2)\<close> for every unrotated,
  unskewed, unscaled object. The half-dimensions come from \<open>_getTransformedDimensions\<close>,
  which adds the stroke width to the width and to the height: an object of width and
  height \<open>100\<close> with \<open>strokeWidth = 1\<close> and center \<open>(0, 0)\<close> has \<open>tl = (-50.5, -50.5)\<close>.
\<close>

theorem calcACoords_plain_counterexample:
  "tl (calcACoords exampleSizeAfterTransform exampleObject) = Point (- 50.5) (- 50.5)
   \<and> Point (x_of (getRelativeCenterPoint exampleSizeAfterTransform exampleObject)
               - this_width exampleObject / 2)
            (y_of (getRelativeCenterPoint exampleSizeAfterTransform exampleObject)
               - this_height exampleObject / 2) = Point (- 50) (- 50)
   \<and> tl (calcACoords exampleSizeAfterTransform exampleObject)
       \<noteq> Point (x_of (getRelativeCenterPoint exampleSizeAfterTransform exampleObject)
                  - this_width exampleObject / 2)
               (y_of (getRelativeCenterPoint exampleSizeAfterTransform exampleObject)
                  - this_height exampleObject / 2)"
  by (simp add: calcACoords_def getRelativeCenterPoint_def translateToCenterPoint_def
      translateToGivenOrigin_def getTransformedDimensions_def scalarAdd_def
      createRotateMatrix_zero createTranslateMatrix_def transformPoint_def Let_def
      exampleObject_def)

text \<open>
  Claim C4, amended. For every object with \<open>angle = 0\<close>, \<open>skewX = skewY = 0\<close> and
  \<open>scaleX = scaleY = 1\<close>, of width \<open>W\<close>, height \<open>H\<close>, stroke width \<open>s\<close> and (relative) center
  \<open>(cx, cy)\<close>, \<open>calcACoords()\<close> returns exactly the corners \<open>cx \<plusminus> (W + s)/2\<close>,
  \<open>cy \<plusminus> (H + s)/2\<close>; they are the corners of the claim when the stroke width is \<open>0\<close>.
\<close>

theorem calcACoords_plain:
  assumes "this_angle this = 0" "this_skewX this = 0" "this_skewY this = 0"
    and "this_scaleX this = 1" "this_scaleY this = 1"
  shows "calcACoords sat this =
           (let c = getRelativeCenterPoint sat this;
                w = (this_width this + this_strokeWidth this) / 2;
                h = (this_height this + this_strokeWidth this) / 2
            in \<lparr>tl = Point (x_of c - w) (y_of c - h), tr = Point (x_of c + w) (y_of c - h),
                bl = Point (x_of c - w) (y_of c + h), br = Point (x_of c + w) (y_of c + h)\<rparr>)"
  using assms(1)
  by (simp add: calcACoords_def getTransformedDimensions_plain [OF assms(2-5)]
      createRotateMatrix_zero createTranslateMatrix_def transformPoint_def Let_def)

theorem calcACoords_plain_witness:
  "this_angle (exampleObject\<lparr>this_left := 10, this_top := 20, this_height := 60,
       this_originX := LEFT, this_originY := TOP, this_strokeWidth := 2,
       this_strokeUniform := True\<rparr>) = 0
   \<and> calcACoords exampleSizeAfterTransform
         (exampleObject\<lparr>this_left := 10, this_top := 20, this_height := 60,
            this_originX := LEFT, this_originY := TOP, this_strokeWidth := 2,
            this_strokeUniform := True\<rparr>)
       = \<lparr>tl = Point 10 20, tr = Point 112 20, bl = Point 10 82, br = Point 112 82\<rparr>"
proof -
  let ?o = "exampleObject\<lparr>this_left := 10, this_top := 20, this_height := 60,
              this_originX := LEFT, this_originY := TOP, this_strokeWidth := 2,
              this_strokeUniform := True\<rparr>"
  have h: "this_angle ?o = 0" "this_skewX ?o = 0" "this_skewY ?o = 0"
    "this_scaleX ?o = 1" "this_scaleY ?o = 1"
    by (simp_all add: exampleObject_def)
  have c: "getRelativeCenterPoint exampleSizeAfterTransform ?o = Point 61 51"
    by (simp add: getRelativeCenterPoint_def translateToCenterPoint_def
        translateToGivenOrigin_def getTransformedDimensions_def scalarAdd_def Let_def
        exampleObject_def)
  have v: "this_width ?o = 100" "this_height ?o = 60" "this_strokeWidth ?o = 2"
    by (simp_all add: exampleObject_def)
  from calcACoords_plain [OF h, of exampleSizeAfterTransform] h(1) show ?thesis
    by (simp add: c v Let_def)
qed

subsection \<open>Pattern preparation\<close>

text \<open>
  In normal mode an erasable object is hidden while the objects are rendered, in
  inverted mode it is rendered without its eraser:
\<close>

lemma preparePattern_hides_while_rendering:
  "patternCanvas (fst (preparePattern exampleBrush None exampleCanvas))
     = [RenderObjects [(1, False, None), (2, True, None)]]"
  by (simp add: preparePattern_def patternBackground_def patternOverlay_def
      prepareCollectionTraversal_def renderObjects_def seen_def restore_def Let_def
      exampleBrush_def exampleCanvas_def)

lemma preparePattern_detaches_while_rendering:
  "patternCanvas (fst (preparePattern (exampleBrush\<lparr>inverted := True\<rparr>) None
       (exampleCanvas\<lparr>store := (\<lambda>i. \<lparr>visible = True, eraser = Some [], dirty = False\<rparr>)\<rparr>)))
     = [RenderBackground None False, RenderObjects [(1, True, None), (2, True, Some [])],
        RenderOverlay None False]"
  by (simp add: preparePattern_def patternBackground_def patternOverlay_def
      prepareCollectionTraversal_def renderObjects_def renderBackground_def renderOverlay_def
      seen_def restore_def Let_def exampleBrush_def exampleCanvas_def)

lemma fold_preserves:
  assumes "\<And>x st. x \<in> set xs \<Longrightarrow> P st \<Longrightarrow> P (f x st)" "P st"
  shows "P (fold f xs st)"
  using assms by (induction xs arbitrary: st) simp_all

lemma restorable_hide:
  assumes "restorable s0 (s, rc)" "visible (s i)"
  shows "restorable s0 (s(i := (s i)\<lparr>visible := False\<rparr>), rc\<lparr>rcVisibility := rcVisibility rc @ [i]\<rparr>)"
  using assms unfolding restorable_def by auto

lemma restorable_detach:
  assumes "restorable s0 (s, rc)" "eraser (s i) = Some er"
  shows "restorable s0 (s(i := (s i)\<lparr>eraser := None, dirty := True\<rparr>),
                        rc\<lparr>rcEraser := rcEraser rc @ [(i, er)]\<rparr>)"
proof -
  from assms have notin: "i \<notin> fst ` set (rcEraser rc)" and orig: "eraser (s0 i) = Some er"
    unfolding restorable_def by (auto split: if_splits)
  from assms(1) orig show ?thesis
    unfolding restorable_def by (auto split: if_splits)
qed

lemma restorable_dirty:
  assumes "restorable s0 (s, rc)"
  shows "restorable s0 (s(c := (s c)\<lparr>dirty := True\<rparr>), rc\<lparr>rcCollection := rcCollection rc @ [c]\<rparr>)"
  using assms unfolding restorable_def by auto

lemma prepareObject_restorable:
  "restorable s0 st \<Longrightarrow> restorable s0 (prepareObject m collection obj st)"
proof (induction m collection obj st arbitrary: rule: prepareObject.induct)
  case (1 m collection i e fe objs cp g mat s rc)
  show ?case
  proof (cases "fe \<and> e = ErasableDeep")
    case True
    have "restorable s0 (fold (prepareObject m (Some i)) objs (s, rc))"
    proof (rule fold_preserves [where P = "restorable s0"])
      fix x st
      assume "x \<in> set objs" "restorable s0 st"
      then show "restorable s0 (prepareObject m (Some i) x st)"
        using "1.IH" [OF True] by (cases st) auto
    qed (rule "1.prems")
    with True show ?thesis by simp
  next
    case False
    define step where "step =
      (if \<not> m \<and> e \<noteq> ErasableFalse \<and> visible (s i) then
         (s(i := (s i)\<lparr>visible := False\<rparr>), rc\<lparr>rcVisibility := rcVisibility rc @ [i]\<rparr>, True)
       else
         (case eraser (s i) of
            Some er \<Rightarrow>
              if m \<and> e \<noteq> ErasableFalse \<and> visible (s i) then
                (s(i := (s i)\<lparr>eraser := None, dirty := True\<rparr>),
                 rc\<lparr>rcEraser := rcEraser rc @ [(i, er)]\<rparr>, True)
              else (s, rc, False)
          | None \<Rightarrow> (s, rc, False)))"
    obtain s1 rc1 d where step: "step = (s1, rc1, d)"
      by (cases step) auto
    have r1: "restorable s0 (s1, rc1)"
      using step "1.prems" restorable_hide [OF "1.prems"] restorable_detach [OF "1.prems"]
      unfolding step_def by (auto split: if_splits option.splits)
    have "prepareObject m collection (SceneObject i e fe objs cp g mat) (s, rc)
            = (case collection of
                 Some c \<Rightarrow> if d then (s1(c := (s1 c)\<lparr>dirty := True\<rparr>),
                                      rc1\<lparr>rcCollection := rcCollection rc1 @ [c]\<rparr>)
                           else (s1, rc1)
               | None \<Rightarrow> (s1, rc1))"
      using step by (simp add: False step_def [symmetric] del: fun_upd_apply)
    with r1 restorable_dirty [OF r1] show ?thesis
      by (auto split: option.splits)
  qed
qed

lemma prepareCollectionTraversal_restorable:
  assumes "restorable s0 st"
  shows "restorable s0 (prepareCollectionTraversal m collection objs st)"
  unfolding prepareCollectionTraversal_def
  by (rule fold_preserves [where P = "restorable s0"]) (auto intro: prepareObject_restorable assms)

lemma fold_frame:
  assumes "\<And>x s. g (f x s j) = g (s j)"
  shows "g (fold f xs s j) = g (s j)"
  by (induction xs arbitrary: s) (simp_all add: assms)

lemma fold_show:
  fixes s :: Store
  shows "visible (fold (\<lambda>i s. s(i := (s i)\<lparr>visible := True\<rparr>)) is s j)
           = (visible (s j) \<or> j \<in> set is)"
    and "eraser (fold (\<lambda>i s. s(i := (s i)\<lparr>visible := True\<rparr>)) is s j) = eraser (s j)"
  by (induction "is" arbitrary: s) auto

lemma fold_attach:
  fixes s :: Store
  shows "visible (fold (\<lambda>(i, er) s. s(i := (s i)\<lparr>eraser := Some er, dirty := True\<rparr>)) es s j)
           = visible (s j)"
proof (rule fold_frame)
  fix x :: "nat \<times> Path list" and s :: Store
  obtain i er where x: "x = (i, er)"
    by (cases x) auto
  show "visible ((case x of (i, er) \<Rightarrow> \<lambda>s. s(i := (s i)\<lparr>eraser := Some er, dirty := True\<rparr>)) s j)
          = visible (s j)"
    unfolding x by simp
qed

lemma fold_attach_eraser:
  fixes s s0 :: Store
  assumes "\<forall>(i, er) \<in> set es. eraser (s0 i) = Some er"
  shows "eraser (fold (\<lambda>(i, er) s. s(i := (s i)\<lparr>eraser := Some er, dirty := True\<rparr>)) es s j)
           = (if j \<in> fst ` set es then eraser (s0 j) else eraser (s j))"
  using assms by (induction es arbitrary: s) (auto simp: image_iff)

lemma fold_dirty:
  fixes s :: Store
  shows "visible (fold (\<lambda>i s. s(i := (s i)\<lparr>dirty := True\<rparr>)) cs s j) = visible (s j)"
    and "eraser (fold (\<lambda>i s. s(i := (s i)\<lparr>dirty := True\<rparr>)) cs s j) = eraser (s j)"
  by (rule fold_frame, simp)+

lemma restore_restorable:
  assumes "restorable s0 (s, rc)"
  shows "visible (restore rc s j) = visible (s0 j)" and "eraser (restore rc s j) = eraser (s0 j)"
proof -
  from assms have v: "\<And>i. visible (s i) = (visible (s0 i) \<and> i \<notin> set (rcVisibility rc))"
    and vo: "\<And>i. i \<in> set (rcVisibility rc) \<Longrightarrow> visible (s0 i)"
    and e: "\<And>i. eraser (s i) = (if i \<in> fst ` set (rcEraser rc) then None else eraser (s0 i))"
    and eo: "\<forall>(i, er) \<in> set (rcEraser rc). eraser (s0 i) = Some er"
    unfolding restorable_def by auto
  show "visible (restore rc s j) = visible (s0 j)"
    using v [of j] vo [of j] by (auto simp: restore_def Let_def fold_dirty fold_attach fold_show)
  show "eraser (restore rc s j) = eraser (s0 j)"
    using e [of j]
    by (simp add: restore_def Let_def fold_dirty fold_attach_eraser [OF eo] fold_show)
qed

lemma restorable_init:
  "restorable s (s, \<lparr>rcVisibility = [], rcEraser = [], rcCollection = []\<rparr>)"
  by (simp add: restorable_def)

lemma patternBackground_frame:
  "visible (store (fst (patternBackground m c)) i) = visible (store c i)"
  "eraser (store (fst (patternBackground m c)) i) = eraser (store c i)"
  "backgroundImage (fst (patternBackground m c)) = backgroundImage c"
  "overlayImage (fst (patternBackground m c)) = overlayImage c"
  by (auto simp: patternBackground_def Let_def split: option.splits)

lemma patternOverlay_frame:
  "visible (store (fst (patternOverlay m c)) i) = visible (store c i)"
  "eraser (store (fst (patternOverlay m c)) i) = eraser (store c i)"
  "backgroundImage (fst (patternOverlay m c)) = backgroundImage c"
  "overlayImage (fst (patternOverlay m c)) = overlayImage c"
  by (auto simp: patternOverlay_def Let_def split: option.splits)

text \<open>
  Claim C9. After \<open>preparePattern\<close> returns, every object (the store is indexed by the
  identity of the object, nested or not, and the background and overlay images are in
  it) has the \<open>visible\<close> and the \<open>eraser\<close> that it had before the call, and the canvas has
  the background and overlay image that it had; only \<open>dirty\<close> flags may differ.
\<close>

theorem preparePattern_restores:
  "visible (store (snd (preparePattern this objectsArg canvas)) i) = visible (store canvas i)
   \<and> eraser (store (snd (preparePattern this objectsArg canvas)) i) = eraser (store canvas i)
   \<and> backgroundImage (snd (preparePattern this objectsArg canvas)) = backgroundImage canvas
   \<and> overlayImage (snd (preparePattern this objectsArg canvas)) = overlayImage canvas"
proof -
  define objs where "objs = (case objectsArg of
                    Some os \<Rightarrow> os
                  | None \<Rightarrow> (case objectsToRender canvas of
                               Some os \<Rightarrow> os
                             | None \<Rightarrow> canvasObjects canvas))"
  define c1 where "c1 = fst (patternBackground (inverted this) canvas)"
  define st where "st = prepareCollectionTraversal (inverted this) None objs
                       (store c1, \<lparr>rcVisibility = [], rcEraser = [], rcCollection = []\<rparr>)"
  define c3 where "c3 = c1\<lparr>store := restore (snd st) (fst st)\<rparr>"
  have res: "snd (preparePattern this objectsArg canvas) = fst (patternOverlay (inverted this) c3)"
    by (simp add: preparePattern_def Let_def objs_def c1_def st_def c3_def split_beta)
  have "restorable (store c1) st"
    unfolding st_def by (intro prepareCollectionTraversal_restorable restorable_init)
  then have "restorable (store c1) (fst st, snd st)"
    by simp
  note restored = restore_restorable [OF this]
  have v: "visible (store c3 i) = visible (store canvas i)"
    and e: "eraser (store c3 i) = eraser (store canvas i)"
    by (simp_all add: c3_def restored) (simp_all add: c1_def patternBackground_frame)
  have imgs: "backgroundImage c3 = backgroundImage canvas" "overlayImage c3 = overlayImage canvas"
    by (simp_all add: c3_def c1_def patternBackground_frame)
  show ?thesis
    unfolding res by (simp add: patternOverlay_frame v e imgs)
qed

subsection \<open>Attaching an erase path\<close>

text \<open>
  Claim C5. When the target is not a deep-erasable collection, \<open>_addPathToObjectEraser\<close>
  leaves the target with an eraser that is its former eraser (the empty one, created
  then, if it had none) followed by the clone of the path, whose transform is
  \<open>invertTransform(obj.calcTransformMatrix())\<close> multiplied by the matrix of the path; the
  target is dirty and \<open>erasing:end\<close> is fired on it with the clone.
\<close>

theorem addPathToObjectEraser_leaf:
  assumes "\<not> (forEachObject obj \<and> erasable obj = ErasableDeep)"
  shows "eraser (esStore (addPathToObjectEraser ext withContext obj path st) (oid obj))
           = Some ((case eraser (esStore st (oid obj)) of None \<Rightarrow> [] | Some er \<Rightarrow> er)
                   @ [path\<lparr>pathMatrix := multiplyTransformMatrices (invertTransform (matrix obj))
                                             (pathMatrix path) False\<rparr>])
         \<and> dirty (esStore (addPathToObjectEraser ext withContext obj path st) (oid obj))
         \<and> esFired (addPathToObjectEraser ext withContext obj path st)
           = esFired st @ [ObjectErasingEnd (oid obj)
                (path\<lparr>pathMatrix := multiplyTransformMatrices (invertTransform (matrix obj))
                                       (pathMatrix path) False\<rparr>)]"
proof (cases obj)
  case (SceneObject i e fe objs cp g m)
  with assms have leaf: "\<not> (fe \<and> e = ErasableDeep)"
    by simp
  show ?thesis
    unfolding SceneObject
    by (simp add: leaf Let_def split: option.splits)
qed

theorem addPathToObjectEraser_leaf_witness:
  "\<not> (forEachObject (SceneObject 7 ErasableTrue False [] None False (2, 0, 0, 2, 10, 20))
       \<and> erasable (SceneObject 7 ErasableTrue False [] None False (2, 0, 0, 2, 10, 20)) = ErasableDeep)
   \<and> eraser (esStore (addPathToObjectEraser
         exampleCollaborators
         True (SceneObject 7 ErasableTrue False [] None False (2, 0, 0, 2, 10, 20))
         \<lparr>pathData = [], pathMatrix = (1, 0, 0, 1, 30, 40), pathClipPath = None,
          globalCompositeOperation = ''destination-out'', stroke = ''black''\<rparr>
         \<lparr>esStore = (\<lambda>i. \<lparr>visible = True, eraser = None, dirty = False\<rparr>), esFired = [],
          esContext = \<lparr>targets = [], subTargets = [], drawables = []\<rparr>\<rparr>) 7)
       = Some [\<lparr>pathData = [], pathMatrix = (1 / 2, 0, 0, 1 / 2, 10, 10), pathClipPath = None,
                globalCompositeOperation = ''destination-out'', stroke = ''black''\<rparr>]"
proof -
  let ?obj = "SceneObject 7 ErasableTrue False [] None False (2, 0, 0, 2, 10, 20)"
  have h: "\<not> (forEachObject ?obj \<and> erasable ?obj = ErasableDeep)"
    by simp
  have m: "multiplyTransformMatrices (invertTransform (2, 0, 0, 2, 10, 20)) (1, 0, 0, 1, 30, 40) False
             = (1 / 2, 0, 0, 1 / 2, 10, 10)"
    by (simp add: Let_def)
  from addPathToObjectEraser_leaf [OF h] h show ?thesis
    by (simp add: m del: addPathToObjectEraser.simps invertTransform.simps
        multiplyTransformMatrices.simps)
qed

lemma finalizeAndAddPath_few_points:
  assumes "pts = (if decimate this \<noteq> 0
                  then decimatePoints (points this) (decimate this) (getZoom canvas)
                  else points this)"
    and "length pts < 2"
  shows "finalizeAndAddPath ext this canvas
           = (None, this\<lparr>points := pts, isErasing := False\<rparr>,
              canvas\<lparr>topContextClears := Suc (topContextClears canvas),
                     fired := fired canvas @ [ErasingEnd None],
                     renderRequests := Suc (renderRequests canvas)\<rparr>)"
  using assms(2) unfolding finalizeAndAddPath_def assms(1) [symmetric] Let_def
  by (simp add: not_less)

lemma finalizeAndAddPath_throws:
  assumes "pts = (if decimate this \<noteq> 0
                  then decimatePoints (points this) (decimate this) (getZoom canvas)
                  else points this)"
    and "1 < length pts"
  shows "finalizeAndAddPath ext this canvas
           = (Some TypeError, this\<lparr>points := pts, isErasing := False\<rparr>,
              canvas\<lparr>topContextClears := Suc (topContextClears canvas)\<rparr>)"
  using assms(2) unfolding finalizeAndAddPath_def assms(1) [symmetric] Let_def
  by simp

text \<open>
  Claim C8 says that a gesture whose points after decimation are fewer than two, or
  convert to the empty SVG path, is discarded silently: no path is created, nothing is
  attached, \<open>erasing:end\<close> is fired and a rendering is requested. For fewer than two
  points the code does so (\<open>finalizeAndAddPath_few_points\<close>). For two captured points
  \<open>(0, 0)\<close>, \<open>(0, 0)\<close> whose path is the empty SVG path, the code throws a \<open>TypeError\<close> at
  \<open>this._isEmptySVGPath\<close>: the top context has been cleared, and no \<open>erasing:end\<close> is
  fired and no rendering is requested.
\<close>

theorem finalizeAndAddPath_empty_path_throws:
  "decimatePoints [Point 0 0, Point 0 0] (decimate exampleBrush) (getZoom exampleCanvas)
     = [Point 0 0, Point 0 0]
   \<and> isEmptySVGPath emptyPathCollaborators
         (convertPointsToSVGPath emptyPathCollaborators (brushWidth exampleBrush)
            [Point 0 0, Point 0 0])
   \<and> finalizeAndAddPath emptyPathCollaborators
         (exampleBrush\<lparr>points := [Point 0 0, Point 0 0]\<rparr>) exampleCanvas
       = (Some TypeError,
          exampleBrush\<lparr>points := [Point 0 0, Point 0 0], isErasing := False\<rparr>,
          exampleCanvas\<lparr>topContextClears := 1\<rparr>)
   \<and> fired (snd (snd (finalizeAndAddPath emptyPathCollaborators
         (exampleBrush\<lparr>points := [Point 0 0, Point 0 0]\<rparr>) exampleCanvas))) = []
   \<and> renderRequests (snd (snd (finalizeAndAddPath emptyPathCollaborators
         (exampleBrush\<lparr>points := [Point 0 0, Point 0 0]\<rparr>) exampleCanvas))) = 0"
  by (simp add: finalizeAndAddPath_def decimatePoints_def isEmptySVGPath_def
      convertPointsToSVGPath_def emptyPathCollaborators_def exampleCollaborators_def
      exampleBrush_def exampleCanvas_def Let_def)

end
